theory Spec2Isabelle
  imports Complex_Main "HOL-Library.Log_Nat"
begin

section \<open>Errors and Python dictionaries\<close>

text \<open>
  The exceptions the modelled code can raise. \<open>Exception\<close> carries the message of the
  \<^verbatim>\<open>raise Exception(...)\<close> in the main block; \<open>ValueError\<close> is what
  \<^verbatim>\<open>multiprocessing.Pool(n)\<close> raises for \<open>n < 1\<close>; \<open>AttributeError\<close> stands for
  handing an object of one kind to the code path of another; \<open>OverflowError\<close> is raised
  by the division of two integers whose quotient is too large for a float.
\<close>

datatype error =
  ZeroDivisionError | KeyError | ValueError | AttributeError | OverflowError | Exception string

definition and_then :: "error + 'a \<Rightarrow> ('a \<Rightarrow> error + 'b) \<Rightarrow> error + 'b" where
  "and_then r f = (case r of Inl e \<Rightarrow> Inl e | Inr x \<Rightarrow> f x)"

text \<open>
  A Python \<^verbatim>\<open>dict\<close> is an association list with distinct keys in insertion order:
  \<^verbatim>\<open>d[k] = v\<close> keeps the place of an existing key and appends a new one.
\<close>

fun dict_set :: "'k \<Rightarrow> 'v \<Rightarrow> ('k \<times> 'v) list \<Rightarrow> ('k \<times> 'v) list" where
  "dict_set k v [] = [(k, v)]"
| "dict_set k v (p # ps) = (if fst p = k then (k, v) # ps else p # dict_set k v ps)"

definition dict_get :: "('k \<times> 'v) list \<Rightarrow> 'k \<Rightarrow> error + 'v" where
  "dict_get d k = (case map_of d k of None \<Rightarrow> Inl KeyError | Some v \<Rightarrow> Inr v)"

definition dict_in :: "'k \<Rightarrow> ('k \<times> 'v) list \<Rightarrow> bool" where
  "dict_in k d = (map_of d k \<noteq> None)"

definition dict_values :: "('k \<times> 'v) list \<Rightarrow> 'v list" where
  "dict_values d = map snd d"

definition dict_update :: "('k \<times> 'v) list \<Rightarrow> ('k \<times> 'v) list \<Rightarrow> ('k \<times> 'v) list" where
  \<comment> \<open>\<^verbatim>\<open>d.update(e)\<close>\<close>
  "dict_update d e = foldl (\<lambda>acc p. dict_set (fst p) (snd p) acc) d e"

section \<open>The entity stream\<close>

text \<open>
  \<^verbatim>\<open>OSM_ENTITIES = ["nodes", "ways", "relations"]\<close>. The objects pyosmium hands to the
  handlers carry an id, a version, a timestamp (taken here in whole seconds, as
  \<^verbatim>\<open>int(datetime.timestamp(...))\<close> reads it), the visible flag and the payload of the
  kind. A location is \<open>None\<close> when \<^verbatim>\<open>location.valid()\<close> is false. Coordinates are
  integers here: no claim uses their arithmetic. Tags and user metadata are left out.
\<close>

datatype entity_type = Nodes | Ways | Relations

datatype member_type = N | W | R

record osm_node =
  n_id :: int
  n_version :: nat
  n_timestamp :: int
  n_visible :: bool
  n_location :: "(int \<times> int) option"

record osm_way =
  w_id :: int
  w_version :: nat
  w_timestamp :: int
  w_visible :: bool
  w_nodes :: "int list"

record osm_relation =
  r_id :: int
  r_version :: nat
  r_timestamp :: int
  r_visible :: bool
  r_members :: "(member_type \<times> int \<times> string) list"

datatype osm_object = Node osm_node | Way osm_way | Relation osm_relation

fun object_id :: "osm_object \<Rightarrow> int" where
  "object_id (Node n) = n_id n"
| "object_id (Way w) = w_id w"
| "object_id (Relation r) = r_id r"

section \<open>The record dictionaries of \<^verbatim>\<open>osm_obj_transformer\<close>\<close>

text \<open>
  \<open>Str x\<close> is the text \<^verbatim>\<open>str(x)\<close> gives, kept symbolic: \<open>Str None\<close> is the
  four letters \<^verbatim>\<open>None\<close>, \<open>Str (Some (Point lon lat))\<close> the text of the Point
  dictionary.
\<close>

datatype point = Point int int

datatype 'a py_str = Str 'a

record node_dict =
  nd_id :: int
  nd_version :: nat
  nd_timestamp :: int
  nd_visible :: bool
  nd_location :: "(int \<times> int) option"
  nd_geometry :: "point option py_str option"

record way_dict =
  wd_id :: int
  wd_version :: nat
  wd_timestamp :: int
  wd_visible :: bool
  wd_nodes :: "int list"
  wd_geometry :: "string option"

record relation_dict =
  rd_id :: int
  rd_version :: nat
  rd_timestamp :: int
  rd_visible :: bool
  rd_members :: "(member_type \<times> int \<times> string) list"
  rd_geometry :: "string option"

text \<open>
  Modelled from the spec: \<^verbatim>\<open>osm_obj_transformer\<close> is not among the source files.
  Its dictionary builders copy the metadata and the payload of the entity (section 6 of
  the specification: id, version, timestamp, visible, the payload, geometry as a string
  or null); the geometry argument, \<open>None\<close> when it is not passed, becomes the geometry
  field. \<^verbatim>\<open>is_node_dict_with_location\<close> tells whether the dictionary carries a location
  and \<^verbatim>\<open>get_way_nodes\<close> reads the node ids of a way dictionary.
\<close>

definition osm_entity_node_dict :: "osm_node \<Rightarrow> point option py_str option \<Rightarrow> node_dict" where
  "osm_entity_node_dict n geometry =
     \<lparr>nd_id = n_id n, nd_version = n_version n, nd_timestamp = n_timestamp n,
      nd_visible = n_visible n, nd_location = n_location n, nd_geometry = geometry\<rparr>"

definition osm_entity_way_dict :: "osm_way \<Rightarrow> way_dict" where
  "osm_entity_way_dict w =
     \<lparr>wd_id = w_id w, wd_version = w_version w, wd_timestamp = w_timestamp w,
      wd_visible = w_visible w, wd_nodes = w_nodes w, wd_geometry = None\<rparr>"

definition osm_entity_relation_dict :: "osm_relation \<Rightarrow> relation_dict" where
  "osm_entity_relation_dict r =
     \<lparr>rd_id = r_id r, rd_version = r_version r,
      rd_timestamp = r_timestamp r, rd_visible = r_visible r,
      rd_members = r_members r, rd_geometry = None\<rparr>"

definition is_node_dict_with_location :: "node_dict \<Rightarrow> bool" where
  "is_node_dict_with_location d = (nd_location d \<noteq> None)"

definition get_way_nodes :: "way_dict \<Rightarrow> int list" where
  "get_way_nodes d = wd_nodes d"

section \<open>The versioned index store\<close>

text \<open>
  Modelled from the spec: \<^verbatim>\<open>osm_index.SQLiteOsmIndex\<close> is not among the source files.
  A store holds the rows put into it, in the order they were put, and counts the rows
  written since its last commit and the commits made. Section 4.2 of the specification:
  \<open>GetAsOf(kind, id, ts)\<close> returns the row with the greatest timestamp \<open>\<le> ts\<close> for the
  given kind and id (the later row when a timestamp repeats), and none if there is no
  such row or the row is a deleted (invisible) version with no payload.
\<close>

record osm_index =
  idx_nodes :: "node_dict list"
  idx_ways :: "way_dict list"
  idx_relations :: "relation_dict list"
  idx_uncommitted :: nat
  idx_commits :: nat

definition create_index :: osm_index where
  "create_index = \<lparr>idx_nodes = [], idx_ways = [], idx_relations = [],
     idx_uncommitted = 0, idx_commits = 0\<rparr>"

definition add_node_to_index :: "node_dict \<Rightarrow> osm_index \<Rightarrow> osm_index" where
  "add_node_to_index d s =
     s\<lparr>idx_nodes := idx_nodes s @ [d], idx_uncommitted := Suc (idx_uncommitted s)\<rparr>"

definition add_way_to_index :: "way_dict \<Rightarrow> osm_index \<Rightarrow> osm_index" where
  "add_way_to_index d s =
     s\<lparr>idx_ways := idx_ways s @ [d], idx_uncommitted := Suc (idx_uncommitted s)\<rparr>"

definition add_relation_to_index :: "relation_dict \<Rightarrow> osm_index \<Rightarrow> osm_index" where
  "add_relation_to_index d s =
     s\<lparr>idx_relations := idx_relations s @ [d], idx_uncommitted := Suc (idx_uncommitted s)\<rparr>"

definition save :: "osm_index \<Rightarrow> osm_index" where
  "save s = s\<lparr>idx_uncommitted := 0, idx_commits := Suc (idx_commits s)\<rparr>"

definition close_index :: "osm_index \<Rightarrow> osm_index" where
  "close_index s = s\<lparr>idx_uncommitted := 0\<rparr>"

definition get_as_of :: "('a \<Rightarrow> int) \<Rightarrow> ('a \<Rightarrow> int) \<Rightarrow> 'a list \<Rightarrow> int \<Rightarrow> int \<Rightarrow> 'a option" where
  "get_as_of ident stamp rows i ts =
     foldl (\<lambda>best r.
         if ident r = i \<and> stamp r \<le> ts
            \<and> (case best of None \<Rightarrow> True | Some b \<Rightarrow> stamp b \<le> stamp r)
         then Some r else best)
       None rows"

definition get_node_from_index_by_timestamp :: "osm_index \<Rightarrow> int \<Rightarrow> int \<Rightarrow> node_dict option" where
  "get_node_from_index_by_timestamp s i ts =
     (case get_as_of nd_id nd_timestamp (idx_nodes s) i ts of
        None \<Rightarrow> None
      | Some d \<Rightarrow> if \<not> nd_visible d \<and> nd_location d = None then None else Some d)"

definition get_way_from_index_by_timestamp :: "osm_index \<Rightarrow> int \<Rightarrow> int \<Rightarrow> way_dict option" where
  "get_way_from_index_by_timestamp s i ts =
     (case get_as_of wd_id wd_timestamp (idx_ways s) i ts of
        None \<Rightarrow> None
      | Some d \<Rightarrow> if \<not> wd_visible d \<and> wd_nodes d = [] then None else Some d)"

definition merge_dbs :: "osm_index list \<Rightarrow> osm_index" where
  \<comment> \<open>\<open>Merge(dst, srcs)\<close>: the rows of all the shards in one store\<close>
  "merge_dbs srcs =
     \<lparr>idx_nodes = concat (map idx_nodes srcs), idx_ways = concat (map idx_ways srcs),
      idx_relations = concat (map idx_relations srcs), idx_uncommitted = 0, idx_commits = 0\<rparr>"

section \<open>The shard router\<close>

text \<open>
  Modelled from the spec: \<^verbatim>\<open>osm_processing.get_uniformly_shard_index_from_id\<close> is not
  among the source files. Section 4.1, hash mode: the shard is a stable hash of the id
  modulo the number of shards. The hash \<open>H\<close> is a parameter.
\<close>

definition get_uniformly_shard_index_from_id :: "(int \<Rightarrow> nat) \<Rightarrow> int \<Rightarrow> nat \<Rightarrow> error + nat" where
  "get_uniformly_shard_index_from_id H i num_shards =
     (if num_shards = 0 then Inl ZeroDivisionError else Inr (H i mod num_shards))"

section \<open>\<^verbatim>\<open>OsmHandler\<close>: the per-kind processing counter\<close>

text \<open>
  The fields of the base class that its subclasses' behaviour depends on. The pool index
  and size of the handler only appear in log lines. \<open>current_entity_type\<close> is \<open>None\<close>
  for the initial empty string, which is no key of the counter.
\<close>

record osm_handler =
  processing_counter :: "entity_type \<Rightarrow> nat"
  current_entity_type :: "entity_type option"
  logging_range_count :: nat

definition create_processing_counter :: "entity_type \<Rightarrow> nat" where
  "create_processing_counter = (\<lambda>_. 0)"

definition log_processing :: "'a osm_handler_scheme \<Rightarrow> error + 'a osm_handler_scheme" where
  "log_processing h =
     (case current_entity_type h of
        None \<Rightarrow> Inl KeyError
      | Some t \<Rightarrow>
          if logging_range_count h = 0 then Inl ZeroDivisionError
          else Inr (h\<lparr>processing_counter := (processing_counter h)(t := processing_counter h t + 1)\<rparr>))"

definition OsmHandler_visit :: "entity_type \<Rightarrow> 'a osm_handler_scheme \<Rightarrow> error + 'a osm_handler_scheme" where
  \<comment> \<open>\<^verbatim>\<open>OsmHandler.node\<close>, \<^verbatim>\<open>.way\<close> and \<^verbatim>\<open>.relation\<close>, which differ in the kind they set\<close>
  "OsmHandler_visit t h = log_processing (h\<lparr>current_entity_type := Some t\<rparr>)"

section \<open>The indexing pass: \<^verbatim>\<open>IndexCreator\<close>\<close>

record index_creator = osm_handler +
  ic_osm_indexer_map :: "(nat \<times> osm_index) list"
  ic_num_shards :: nat
  ic_batch_size_to_commit :: nat
  ic_is_id_hash_partitioned_shards :: bool

definition commit_if_needed :: "index_creator \<Rightarrow> error + index_creator" where
  "commit_if_needed ic =
     (case current_entity_type ic of
        None \<Rightarrow> Inl KeyError
      | Some t \<Rightarrow>
          if ic_batch_size_to_commit ic = 0 then Inl ZeroDivisionError
          else if processing_counter ic t mod ic_batch_size_to_commit ic = 0
          then Inr (ic\<lparr>ic_osm_indexer_map := map (\<lambda>(index, indexer). (index, save indexer)) (ic_osm_indexer_map ic)\<rparr>)
          else Inr ic)"

definition process_node :: "nat \<Rightarrow> osm_index \<Rightarrow> osm_node \<Rightarrow> index_creator \<Rightarrow> error + index_creator" where
  \<comment> \<open>the store object is the one under key \<open>k\<close> of the map, updated in place\<close>
  "process_node k osm_indexer n ic =
     commit_if_needed (ic\<lparr>ic_osm_indexer_map :=
       dict_set k (add_node_to_index (osm_entity_node_dict n None) osm_indexer) (ic_osm_indexer_map ic)\<rparr>)"

definition process_way :: "nat \<Rightarrow> osm_index \<Rightarrow> osm_way \<Rightarrow> index_creator \<Rightarrow> error + index_creator" where
  "process_way k osm_indexer w ic =
     commit_if_needed (ic\<lparr>ic_osm_indexer_map :=
       dict_set k (add_way_to_index (osm_entity_way_dict w) osm_indexer) (ic_osm_indexer_map ic)\<rparr>)"

definition process_relation :: "nat \<Rightarrow> osm_index \<Rightarrow> osm_relation \<Rightarrow> index_creator \<Rightarrow> error + index_creator" where
  "process_relation k osm_indexer r ic =
     commit_if_needed (ic\<lparr>ic_osm_indexer_map :=
       dict_set k (add_relation_to_index (osm_entity_relation_dict r) osm_indexer) (ic_osm_indexer_map ic)\<rparr>)"

definition index_batch_index :: "(int \<Rightarrow> nat) \<Rightarrow> osm_object \<Rightarrow> index_creator \<Rightarrow> error + nat" where
  \<comment> \<open>the \<^verbatim>\<open>batch_index\<close> of \<^verbatim>\<open>process_osm_object\<close>\<close>
  "index_batch_index H obj ic =
     (if ic_is_id_hash_partitioned_shards ic
      then get_uniformly_shard_index_from_id H (object_id obj) (ic_num_shards ic)
      else (case current_entity_type ic of
              None \<Rightarrow> Inl KeyError
            | Some t \<Rightarrow>
                if ic_num_shards ic = 0 then Inl ZeroDivisionError
                else Inr (processing_counter ic t mod ic_num_shards ic)))"

definition process_osm_object :: "(int \<Rightarrow> nat) \<Rightarrow> osm_object \<Rightarrow> entity_type \<Rightarrow> index_creator \<Rightarrow> error + index_creator" where
  "process_osm_object H obj osm_entity_type ic =
     and_then (index_batch_index H obj ic) (\<lambda>batch_index.
       case map_of (ic_osm_indexer_map ic) batch_index of
         None \<Rightarrow> Inr ic
       | Some osm_indexer \<Rightarrow>
           (case (osm_entity_type, obj) of
              (Nodes, Node n) \<Rightarrow> process_node batch_index osm_indexer n ic
            | (Ways, Way w) \<Rightarrow> process_way batch_index osm_indexer w ic
            | (Relations, Relation r) \<Rightarrow> process_relation batch_index osm_indexer r ic
            | _ \<Rightarrow> Inl AttributeError))"

fun object_type :: "osm_object \<Rightarrow> entity_type" where
  "object_type (Node n) = Nodes"
| "object_type (Way w) = Ways"
| "object_type (Relation r) = Relations"

definition IndexCreator_visit :: "(int \<Rightarrow> nat) \<Rightarrow> osm_object \<Rightarrow> index_creator \<Rightarrow> error + index_creator" where
  \<comment> \<open>\<^verbatim>\<open>IndexCreator.node\<close>, \<^verbatim>\<open>.way\<close> and \<^verbatim>\<open>.relation\<close>, as \<^verbatim>\<open>apply_file\<close> calls them\<close>
  "IndexCreator_visit H obj ic =
     and_then (OsmHandler_visit (object_type obj) ic) (\<lambda>ic'.
       case current_entity_type ic' of
         None \<Rightarrow> Inl KeyError
       | Some t \<Rightarrow> process_osm_object H obj t ic')"

fun IndexCreator_apply_file :: "(int \<Rightarrow> nat) \<Rightarrow> osm_object list \<Rightarrow> index_creator \<Rightarrow> error + index_creator" where
  "IndexCreator_apply_file H [] ic = Inr ic"
| "IndexCreator_apply_file H (obj # objs) ic =
     and_then (IndexCreator_visit H obj ic) (IndexCreator_apply_file H objs)"

definition IndexCreator_init ::
  "(nat \<times> osm_index) list \<Rightarrow> (entity_type \<Rightarrow> nat) \<Rightarrow> nat \<Rightarrow> bool \<Rightarrow> nat \<Rightarrow> nat \<Rightarrow> index_creator" where
  "IndexCreator_init osm_indexer_map counter num_shards is_id_hash_partitioned_shards
       batch_size_to_commit logging_range =
     \<lparr>processing_counter = counter, current_entity_type = None,
      logging_range_count = logging_range,
      ic_osm_indexer_map = osm_indexer_map, ic_num_shards = num_shards,
      ic_batch_size_to_commit = batch_size_to_commit,
      ic_is_id_hash_partitioned_shards = is_id_hash_partitioned_shards\<rparr>"

section \<open>The index pool: \<^verbatim>\<open>create_osm_index\<close> and its supervisor\<close>

text \<open>
  \<^verbatim>\<open>num_shards / pool_size\<close> is the true division of two Python integers: the
  double nearest to the quotient, the one with the even mantissa of two equally near.
  For \<open>a, b > 0\<close>, \<open>float_exponent a b\<close> is the integer \<open>e\<close> with
  \<open>2^e \<le> a / b < 2^(e + 1)\<close>, found from the bit lengths of \<open>a\<close> and \<open>b\<close>; a
  double has 53 bits of mantissa, so the quotient is rounded to a multiple of
  \<open>2^(e - 52)\<close>, or of \<open>2^(-1074)\<close> for the smallest quotients. A result of
  \<open>2^1024\<close> or more raises. \<^verbatim>\<open>math.ceil\<close> of the double is exact. The source file
  is the list of its objects, and the database file of a shard is the store written to
  it.
\<close>

definition float_exponent :: "nat \<Rightarrow> nat \<Rightarrow> int" where
  "float_exponent a b =
     (let d = bitlen (int a) - bitlen (int b)
      in if (if 0 \<le> d then b * 2 ^ nat d \<le> a else b \<le> a * 2 ^ nat (- d)) then d else d - 1)"

definition round_half_even :: "nat \<Rightarrow> nat \<Rightarrow> nat" where
  \<comment> \<open>the integer nearest to \<open>num / den\<close>, the even one of two equally near\<close>
  "round_half_even num den =
     (let q = num div den; r = num mod den
      in if den < 2 * r \<or> (2 * r = den \<and> odd q) then q + 1 else q)"

definition true_divide :: "nat \<Rightarrow> nat \<Rightarrow> error + real" where
  "true_divide a b =
     (if b = 0 then Inl ZeroDivisionError
      else if a = 0 then Inr 0
      else let p = max (float_exponent a b - 52) (- 1074) in
        if p < 0 then Inr (real (round_half_even (a * 2 ^ nat (- p)) b) / 2 ^ nat (- p))
        else let m = round_half_even a (b * 2 ^ nat p) in
          if 2 ^ 1024 \<le> m * 2 ^ nat p then Inl OverflowError
          else Inr (real (m * 2 ^ nat p)))"

definition thread_batch_size :: "nat \<Rightarrow> nat \<Rightarrow> error + nat" where
  \<comment> \<open>\<^verbatim>\<open>math.ceil(num_shards / pool_size)\<close>\<close>
  "thread_batch_size num_shards pool_size =
     and_then (true_divide num_shards pool_size) (\<lambda>quotient. Inr (nat \<lceil>quotient\<rceil>))"

definition owned_shards :: "nat \<Rightarrow> nat \<Rightarrow> nat \<Rightarrow> error + nat list" where
  \<comment> \<open>\<^verbatim>\<open>range(start_index, start_index + thread_batch_size)\<close> of \<^verbatim>\<open>create_osm_index\<close>\<close>
  "owned_shards num_shards pool_size pool_index =
     and_then (thread_batch_size num_shards pool_size) (\<lambda>tbs.
       Inr [pool_index * tbs ..< pool_index * tbs + tbs])"

definition run_index_creator ::
  "(int \<Rightarrow> nat) \<Rightarrow> osm_object list \<Rightarrow> (nat \<times> osm_index) list \<Rightarrow> (entity_type \<Rightarrow> nat) \<Rightarrow> nat \<Rightarrow> bool
     \<Rightarrow> error + index_creator" where
  "run_index_creator H file osm_indexer_map counter num_shards is_id_hash_partitioned_shards =
     IndexCreator_apply_file H file
       (IndexCreator_init osm_indexer_map counter num_shards is_id_hash_partitioned_shards
          1000000 1000000)"

definition create_osm_index ::
  "(int \<Rightarrow> nat) \<Rightarrow> osm_object list \<Rightarrow> nat \<Rightarrow> nat \<Rightarrow> nat \<Rightarrow> bool
     \<Rightarrow> error + ((nat \<times> osm_index) list \<times> (entity_type \<Rightarrow> nat))" where
  "create_osm_index H file num_shards pool_size pool_index is_id_hash_partitioned_shards =
     and_then (owned_shards num_shards pool_size pool_index) (\<lambda>shards.
     and_then (run_index_creator H file (map (\<lambda>shard_index. (shard_index, create_index)) shards)
                 create_processing_counter num_shards is_id_hash_partitioned_shards) (\<lambda>ic.
       Inr (map (\<lambda>(shard_index, osm_indexer). (shard_index, close_index osm_indexer))
              (ic_osm_indexer_map ic),
            processing_counter ic)))"

fun collect_results :: "(error + 'a) list \<Rightarrow> error + 'a list" where
  \<comment> \<open>\<^verbatim>\<open>[result.get() for result in results]\<close>: the first failed worker's error is raised\<close>
  "collect_results [] = Inr []"
| "collect_results (r # rs) =
     and_then r (\<lambda>x. and_then (collect_results rs) (\<lambda>xs. Inr (x # xs)))"

definition run_create_osm_index_in_parallel ::
  "(int \<Rightarrow> nat) \<Rightarrow> osm_object list \<Rightarrow> int \<Rightarrow> nat \<Rightarrow> bool
     \<Rightarrow> error + ((nat \<times> osm_index) list \<times> (entity_type \<Rightarrow> nat))" where
  \<comment> \<open>the workers are separate processes that share nothing, so they are run in turn\<close>
  "run_create_osm_index_in_parallel H file num_threads num_db_shards is_id_hash_partitioned_shards =
     (if num_threads < 1 then Inl ValueError
      else and_then
        (collect_results
           (map (\<lambda>pool_index. create_osm_index H file num_db_shards (nat num_threads) pool_index
                     is_id_hash_partitioned_shards)
              [0 ..< nat num_threads])) (\<lambda>dbs_and_counters.
        case dbs_and_counters of
          [] \<Rightarrow> Inl ValueError
        | first # _ \<Rightarrow> Inr (foldl dict_update [] (map fst dbs_and_counters), snd first)))"

definition merge_if_db_needed :: "(nat \<times> osm_index) list \<Rightarrow> bool \<Rightarrow> (nat \<times> osm_index) list" where
  \<comment> \<open>\<^verbatim>\<open>merge_if_db_needed_and_upload_to_gcs\<close>, the uploads left out\<close>
  "merge_if_db_needed dbs merge_db_shards =
     (if merge_db_shards then [(0, merge_dbs (dict_values dbs))] else dbs)"

definition startup_num_db_shards :: "int \<Rightarrow> int \<Rightarrow> error + int" where
  \<comment> \<open>lines 530 to 534 of the main block; Python's \<^verbatim>\<open>%\<close> by zero raises\<close>
  "startup_num_db_shards num_threads arg_num_db_shards =
     (let num_db_shards = (if num_threads > arg_num_db_shards then num_threads else arg_num_db_shards)
      in if num_threads = 0 then Inl ZeroDivisionError
         else if num_db_shards mod num_threads \<noteq> 0
         then Inl (Exception ''--num_db_shards must be divisible by --num_threads'')
         else Inr num_db_shards)"

section \<open>The batch buffer\<close>

text \<open>
  Modelled from the spec: \<^verbatim>\<open>osm_processing.BatchManager\<close> is not among the source files.
  Section 4.5 of the specification: a batch holds the main ways and main relations whose
  geometry is pending and the dependencies gathered for them; a dependency is stored once
  per distinct payload; a main entity is known to the geometry builder by a simplified id,
  the place it took in the batch, and \<open>Restore\<close> hands each main entity, under its
  original id and with the geometry the builder returned for its simplified id (null
  when it returned none), to the emitter. \<open>IsFull(kind, counter)\<close> holds when the main
  entities of the kind reach the batch size or when the counter of the kind has reached
  the number of entities of that kind in the stream (end of stream); the byte cap the
  specification mentions has no parameter in the constructor call and is left out. The
  handlers' \<^verbatim>\<open>replace_ids_in_..._and_its_dependencies\<close> calls assign the simplified ids,
  which are the places in the lists here.
\<close>

record batch_manager =
  bm_ways_batch_size :: nat
  bm_entities_number :: "entity_type \<Rightarrow> nat"
  bm_main_ways :: "way_dict list"
  bm_main_relations :: "relation_dict list"
  bm_deps_nodes :: "node_dict list"
  bm_deps_ways :: "way_dict list"
  bm_deps_relations :: "relation_dict list"

record osm_file =
  file_ways :: "way_dict list"
  file_nodes :: "node_dict list"
  file_relations :: "relation_dict list"

definition BatchManager_init :: "nat \<Rightarrow> (entity_type \<Rightarrow> nat) \<Rightarrow> batch_manager" where
  "BatchManager_init ways_batch_size entities_number =
     \<lparr>bm_ways_batch_size = ways_batch_size, bm_entities_number = entities_number,
      bm_main_ways = [], bm_main_relations = [], bm_deps_nodes = [], bm_deps_ways = [],
      bm_deps_relations = []\<rparr>"

definition add_deps :: "'a list \<Rightarrow> 'a list \<Rightarrow> 'a list" where
  "add_deps new deps = foldl (\<lambda>acc d. if d \<in> set acc then acc else acc @ [d]) deps new"

definition add_osm_dicts_to_batches ::
  "node_dict list \<Rightarrow> way_dict list \<Rightarrow> relation_dict list \<Rightarrow> relation_dict option
     \<Rightarrow> batch_manager \<Rightarrow> batch_manager" where
  \<comment> \<open>with no main relation the ways are the main ways (\<open>AddMainWay\<close>), with one they are
      its dependencies (\<open>AddMainRelation\<close>)\<close>
  "add_osm_dicts_to_batches nodes ways relations main_relation bm =
     (case main_relation of
        None \<Rightarrow>
          bm\<lparr>bm_main_ways := bm_main_ways bm @ ways,
             bm_deps_nodes := add_deps nodes (bm_deps_nodes bm),
             bm_deps_relations := add_deps relations (bm_deps_relations bm)\<rparr>
      | Some r \<Rightarrow>
          bm\<lparr>bm_main_relations := bm_main_relations bm @ [r],
             bm_deps_nodes := add_deps nodes (bm_deps_nodes bm),
             bm_deps_ways := add_deps ways (bm_deps_ways bm),
             bm_deps_relations := add_deps relations (bm_deps_relations bm)\<rparr>)"

definition is_full :: "batch_manager \<Rightarrow> entity_type \<Rightarrow> (entity_type \<Rightarrow> nat) \<Rightarrow> bool" where
  "is_full bm entity counter =
     ((case entity of
         Nodes \<Rightarrow> False
       | Ways \<Rightarrow> bm_ways_batch_size bm \<le> length (bm_main_ways bm)
       | Relations \<Rightarrow> bm_ways_batch_size bm \<le> length (bm_main_relations bm))
      \<or> counter entity = bm_entities_number bm entity)"

definition get_batches_values_sorted_lists ::
  "batch_manager \<Rightarrow> node_dict list \<times> way_dict list \<times> relation_dict list" where
  "get_batches_values_sorted_lists bm =
     (bm_deps_nodes bm, bm_main_ways bm @ bm_deps_ways bm,
      bm_deps_relations bm @ bm_main_relations bm)"

definition get_ways_simplified_ids :: "batch_manager \<Rightarrow> nat list" where
  "get_ways_simplified_ids bm = [0 ..< length (bm_main_ways bm)]"

definition get_main_relations_simplified_ids :: "batch_manager \<Rightarrow> nat list" where
  "get_main_relations_simplified_ids bm = [0 ..< length (bm_main_relations bm)]"

definition restore_ways_ids_and_add_geometry ::
  "batch_manager \<Rightarrow> (nat \<times> string) list \<Rightarrow> way_dict list" where
  \<comment> \<open>the dictionaries handed, in turn, to the callback\<close>
  "restore_ways_ids_and_add_geometry bm id_geometry_map =
     map (\<lambda>(i, d). d\<lparr>wd_geometry := map_of id_geometry_map i\<rparr>)
       (zip [0 ..< length (bm_main_ways bm)] (bm_main_ways bm))"

definition restore_relations_ids_and_add_geometry ::
  "batch_manager \<Rightarrow> (nat \<times> string) list \<Rightarrow> relation_dict list" where
  "restore_relations_ids_and_add_geometry bm id_geometry_map =
     map (\<lambda>(i, d). d\<lparr>rd_geometry := map_of id_geometry_map i\<rparr>)
       (zip [0 ..< length (bm_main_relations bm)] (bm_main_relations bm))"

definition reset :: "batch_manager \<Rightarrow> batch_manager" where
  "reset bm = BatchManager_init (bm_ways_batch_size bm) (bm_entities_number bm)"

section \<open>The resolution pass: \<^verbatim>\<open>HistoryHandler\<close>\<close>

text \<open>
  An output file is the list of the lines written to it. \<open>WayLine d\<close> and
  \<open>RelationLine d\<close> are the lines \<^verbatim>\<open>json.dumps\<close> gives for the dictionary \<open>d\<close> once
  it is reshaped to the warehouse schema, which touches none of the fields kept here.
  The geometry builder is the parameter \<open>G\<close>: from the temporary file, the kind and the
  target ids to the id-to-GeoJSON map, or an error that ends the run.
\<close>

datatype json_line = NodeLine node_dict | WayLine way_dict | RelationLine relation_dict

record history_handler = osm_handler +
  hh_osm_indexer_map :: "(nat \<times> osm_index) list"
  hh_num_shards :: nat
  hh_entities_out_files_dict :: "entity_type \<Rightarrow> json_line list"
  hh_batch_manager :: batch_manager

definition HistoryHandler_init ::
  "(nat \<times> osm_index) list \<Rightarrow> nat \<Rightarrow> (entity_type \<Rightarrow> json_line list) \<Rightarrow> (entity_type \<Rightarrow> nat)
     \<Rightarrow> (entity_type \<Rightarrow> nat) \<Rightarrow> nat \<Rightarrow> nat \<Rightarrow> history_handler" where
  "HistoryHandler_init osm_indexer_map num_shards files_dict counter entities_number
       logging_range ways_batch_size =
     \<lparr>processing_counter = counter, current_entity_type = None,
      logging_range_count = logging_range,
      hh_osm_indexer_map = osm_indexer_map, hh_num_shards = num_shards,
      hh_entities_out_files_dict = files_dict,
      hh_batch_manager = BatchManager_init ways_batch_size entities_number\<rparr>"

definition get_osm_indexer_by_id :: "(int \<Rightarrow> nat) \<Rightarrow> history_handler \<Rightarrow> int \<Rightarrow> error + osm_index" where
  "get_osm_indexer_by_id H hh i =
     (if length (hh_osm_indexer_map hh) = 1 then dict_get (hh_osm_indexer_map hh) 0
      else and_then (get_uniformly_shard_index_from_id H i (hh_num_shards hh))
             (dict_get (hh_osm_indexer_map hh)))"

definition sort_and_write_to_osm_file :: "batch_manager \<Rightarrow> osm_file" where
  "sort_and_write_to_osm_file bm =
     (case get_batches_values_sorted_lists bm of
        (nodes, ways, relations) \<Rightarrow>
          \<lparr>file_ways = ways, file_nodes = nodes, file_relations = relations\<rparr>)"

definition write_out_to_jsonl :: "entity_type \<Rightarrow> json_line \<Rightarrow> history_handler \<Rightarrow> history_handler" where
  "write_out_to_jsonl entity_type line hh =
     hh\<lparr>hh_entities_out_files_dict :=
       (hh_entities_out_files_dict hh)(entity_type := hh_entities_out_files_dict hh entity_type @ [line])\<rparr>"

definition HistoryHandler_node :: "osm_node \<Rightarrow> history_handler \<Rightarrow> error + history_handler" where
  "HistoryHandler_node n hh =
     and_then (OsmHandler_visit Nodes hh) (\<lambda>hh.
       let node_geometry = (case n_location n of
                              Some (lon, lat) \<Rightarrow> Some (Point lon lat)
                            | None \<Rightarrow> None);
           node_dict = osm_entity_node_dict n (Some (Str node_geometry))
       in case current_entity_type hh of
            None \<Rightarrow> Inl KeyError
          | Some t \<Rightarrow> Inr (write_out_to_jsonl t (NodeLine node_dict) hh))"

text \<open>
  \<^verbatim>\<open>append_node_dict_by_id_and_timestamp\<close> is called either with \<^verbatim>\<open>nodes_list=\<close> or
  with \<^verbatim>\<open>nodes_map=\<close>; each of the two ways of calling it is a function here.
\<close>

definition append_node_dict_by_id_and_timestamp_list ::
  "(int \<Rightarrow> nat) \<Rightarrow> history_handler \<Rightarrow> int \<Rightarrow> int \<Rightarrow> node_dict list \<Rightarrow> error + node_dict list" where
  "append_node_dict_by_id_and_timestamp_list H hh node_id timestamp nodes_list =
     and_then (get_osm_indexer_by_id H hh node_id) (\<lambda>osm_indexer.
       case get_node_from_index_by_timestamp osm_indexer node_id timestamp of
         None \<Rightarrow> Inr nodes_list
       | Some node_dict \<Rightarrow>
           if is_node_dict_with_location node_dict then Inr (nodes_list @ [node_dict])
           else Inr nodes_list)"

definition append_node_dict_by_id_and_timestamp_map ::
  "(int \<Rightarrow> nat) \<Rightarrow> history_handler \<Rightarrow> int \<Rightarrow> int \<Rightarrow> (int \<times> node_dict) list
     \<Rightarrow> error + (int \<times> node_dict) list" where
  "append_node_dict_by_id_and_timestamp_map H hh node_id timestamp nodes_map =
     and_then (get_osm_indexer_by_id H hh node_id) (\<lambda>osm_indexer.
       case get_node_from_index_by_timestamp osm_indexer node_id timestamp of
         None \<Rightarrow> Inr nodes_map
       | Some node_dict \<Rightarrow>
           if is_node_dict_with_location node_dict then Inr (dict_set node_id node_dict nodes_map)
           else Inr nodes_map)"

fun way_nodes_loop ::
  "(int \<Rightarrow> nat) \<Rightarrow> history_handler \<Rightarrow> int \<Rightarrow> int list \<Rightarrow> node_dict list \<Rightarrow> error + node_dict list" where
  \<comment> \<open>\<^verbatim>\<open>for node in way.nodes\<close> of \<^verbatim>\<open>get_way_and_its_dependencies_as_dict\<close>\<close>
  "way_nodes_loop H hh way_timestamp [] way_nodes = Inr way_nodes"
| "way_nodes_loop H hh way_timestamp (i # nodes) way_nodes =
     and_then (append_node_dict_by_id_and_timestamp_list H hh i way_timestamp way_nodes)
       (way_nodes_loop H hh way_timestamp nodes)"

definition get_way_and_its_dependencies_as_dict ::
  "(int \<Rightarrow> nat) \<Rightarrow> history_handler \<Rightarrow> osm_way \<Rightarrow> error + (way_dict \<times> node_dict list)" where
  "get_way_and_its_dependencies_as_dict H hh w =
     (let way_dict = osm_entity_way_dict w;
          way_timestamp = w_timestamp w
      in and_then (way_nodes_loop H hh way_timestamp (w_nodes w) []) (\<lambda>way_nodes.
           Inr (way_dict, way_nodes)))"

definition flush_ways ::
  "(osm_file \<Rightarrow> entity_type \<Rightarrow> nat list \<Rightarrow> error + (nat \<times> string) list) \<Rightarrow> entity_type
     \<Rightarrow> history_handler \<Rightarrow> error + history_handler" where
  \<comment> \<open>the body of \<^verbatim>\<open>if self.batch_manager.is_full(...)\<close> in \<^verbatim>\<open>HistoryHandler.way\<close>\<close>
  "flush_ways G t hh =
     (let bm = hh_batch_manager hh;
          temp_osm_file = sort_and_write_to_osm_file bm;
          target_ids = get_ways_simplified_ids bm
      in and_then (G temp_osm_file t target_ids) (\<lambda>id_geometry_map.
           Inr ((foldl (\<lambda>h restored_way_dict. write_out_to_jsonl t (WayLine restored_way_dict) h)
                   hh (restore_ways_ids_and_add_geometry bm id_geometry_map))
                \<lparr>hh_batch_manager := reset bm\<rparr>)))"

definition HistoryHandler_way ::
  "(int \<Rightarrow> nat) \<Rightarrow> (osm_file \<Rightarrow> entity_type \<Rightarrow> nat list \<Rightarrow> error + (nat \<times> string) list)
     \<Rightarrow> osm_way \<Rightarrow> history_handler \<Rightarrow> error + history_handler" where
  "HistoryHandler_way H G w hh =
     and_then (OsmHandler_visit Ways hh) (\<lambda>hh.
     and_then (get_way_and_its_dependencies_as_dict H hh w) (\<lambda>(way_dict, way_nodes_dicts).
       let hh = hh\<lparr>hh_batch_manager :=
                  add_osm_dicts_to_batches way_nodes_dicts [way_dict] [] None (hh_batch_manager hh)\<rparr>
       in case current_entity_type hh of
            None \<Rightarrow> Inl KeyError
          | Some t \<Rightarrow>
              if is_full (hh_batch_manager hh) t (processing_counter hh) then flush_ways G t hh
              else Inr hh))"

fun has_relation :: "(member_type \<times> int \<times> string) list \<Rightarrow> bool" where
  \<comment> \<open>the loop with \<^verbatim>\<open>break\<close> that opens \<^verbatim>\<open>HistoryHandler.relation\<close>\<close>
  "has_relation [] = False"
| "has_relation (member # members) = (if fst member = R then True else has_relation members)"

fun way_nodes_into_map ::
  "(int \<Rightarrow> nat) \<Rightarrow> history_handler \<Rightarrow> int \<Rightarrow> int list \<Rightarrow> (int \<times> node_dict) list
     \<Rightarrow> error + (int \<times> node_dict) list" where
  \<comment> \<open>\<^verbatim>\<open>for way_node_id in osm_obj_transformer.get_way_nodes(way_dict)\<close>\<close>
  "way_nodes_into_map H hh relation_timestamp [] relation_nodes_map = Inr relation_nodes_map"
| "way_nodes_into_map H hh relation_timestamp (way_node_id # ids) relation_nodes_map =
     and_then (append_node_dict_by_id_and_timestamp_map H hh way_node_id relation_timestamp
                 relation_nodes_map)
       (way_nodes_into_map H hh relation_timestamp ids)"

definition append_relation_dependency_objects_dicts ::
  "(int \<Rightarrow> nat) \<Rightarrow> history_handler \<Rightarrow> int \<Rightarrow> member_type \<Rightarrow> int
     \<Rightarrow> (int \<times> node_dict) list \<times> (int \<times> way_dict) list \<times> (int \<times> relation_dict) list
     \<Rightarrow> error + ((int \<times> node_dict) list \<times> (int \<times> way_dict) list \<times> (int \<times> relation_dict) list)" where
  "append_relation_dependency_objects_dicts H hh member_id member_type relation_timestamp maps =
     (case maps of (relation_nodes_map, relation_ways_map, relation_relations_map) \<Rightarrow>
       (case member_type of
          N \<Rightarrow>
            if \<not> dict_in member_id relation_nodes_map
            then and_then (append_node_dict_by_id_and_timestamp_map H hh member_id
                             relation_timestamp relation_nodes_map) (\<lambda>relation_nodes_map.
                   Inr (relation_nodes_map, relation_ways_map, relation_relations_map))
            else Inr maps
        | W \<Rightarrow>
            if \<not> dict_in member_id relation_ways_map
            then and_then (get_osm_indexer_by_id H hh member_id) (\<lambda>osm_indexer.
                   case get_way_from_index_by_timestamp osm_indexer member_id relation_timestamp of
                     None \<Rightarrow> Inr maps
                   | Some way_dict \<Rightarrow>
                       and_then (way_nodes_into_map H hh relation_timestamp
                                   (get_way_nodes way_dict) relation_nodes_map)
                         (\<lambda>relation_nodes_map.
                            Inr (relation_nodes_map,
                                 dict_set member_id way_dict relation_ways_map,
                                 relation_relations_map)))
            else Inr maps
        | R \<Rightarrow> Inr maps))"

fun relation_members_loop ::
  "(int \<Rightarrow> nat) \<Rightarrow> history_handler \<Rightarrow> int \<Rightarrow> (member_type \<times> int \<times> string) list
     \<Rightarrow> (int \<times> node_dict) list \<times> (int \<times> way_dict) list \<times> (int \<times> relation_dict) list
     \<Rightarrow> error + ((int \<times> node_dict) list \<times> (int \<times> way_dict) list \<times> (int \<times> relation_dict) list)" where
  \<comment> \<open>\<^verbatim>\<open>for member in iter(relation.members)\<close>\<close>
  "relation_members_loop H hh relation_timestamp [] maps = Inr maps"
| "relation_members_loop H hh relation_timestamp (member # members) maps =
     and_then (append_relation_dependency_objects_dicts H hh (fst (snd member)) (fst member)
                 relation_timestamp maps)
       (relation_members_loop H hh relation_timestamp members)"

definition get_relation_and_its_dependencies_as_dict ::
  "(int \<Rightarrow> nat) \<Rightarrow> history_handler \<Rightarrow> osm_relation
     \<Rightarrow> error + (relation_dict \<times> node_dict list \<times> way_dict list \<times> relation_dict list)" where
  "get_relation_and_its_dependencies_as_dict H hh r =
     (let relation_dict = osm_entity_relation_dict r;
          relation_timestamp = r_timestamp r
      in and_then (relation_members_loop H hh relation_timestamp (r_members r) ([], [], []))
           (\<lambda>(relation_nodes_map, relation_ways_map, relation_relations_map).
              Inr (relation_dict, dict_values relation_nodes_map, dict_values relation_ways_map,
                   dict_values relation_relations_map)))"

definition enqueue_relation ::
  "(int \<Rightarrow> nat) \<Rightarrow> osm_relation \<Rightarrow> history_handler \<Rightarrow> error + history_handler" where
  \<comment> \<open>lines 296 to 301: the dependencies are gathered and the relation enters the batch\<close>
  "enqueue_relation H r hh =
     and_then (get_relation_and_its_dependencies_as_dict H hh r)
       (\<lambda>(relation_dict, relation_nodes, relation_ways, relation_relations).
          Inr (hh\<lparr>hh_batch_manager :=
                 add_osm_dicts_to_batches relation_nodes relation_ways relation_relations
                   (Some relation_dict) (hh_batch_manager hh)\<rparr>))"

definition flush_relations ::
  "(osm_file \<Rightarrow> entity_type \<Rightarrow> nat list \<Rightarrow> error + (nat \<times> string) list) \<Rightarrow> entity_type
     \<Rightarrow> history_handler \<Rightarrow> error + history_handler" where
  \<comment> \<open>the body of \<^verbatim>\<open>if self.batch_manager.is_full(...)\<close> in \<^verbatim>\<open>HistoryHandler.relation\<close>\<close>
  "flush_relations G t hh =
     (let bm = hh_batch_manager hh;
          temp_osm_file = sort_and_write_to_osm_file bm;
          target_ids = get_main_relations_simplified_ids bm
      in and_then (G temp_osm_file t target_ids) (\<lambda>id_geometry_map.
           Inr ((foldl (\<lambda>h restored_relation_dict.
                          write_out_to_jsonl t (RelationLine restored_relation_dict) h)
                   hh (restore_relations_ids_and_add_geometry bm id_geometry_map))
                \<lparr>hh_batch_manager := reset bm\<rparr>)))"

definition HistoryHandler_relation ::
  "(int \<Rightarrow> nat) \<Rightarrow> (osm_file \<Rightarrow> entity_type \<Rightarrow> nat list \<Rightarrow> error + (nat \<times> string) list)
     \<Rightarrow> osm_relation \<Rightarrow> history_handler \<Rightarrow> error + history_handler" where
  "HistoryHandler_relation H G r hh =
     and_then (OsmHandler_visit Relations hh) (\<lambda>hh.
       if has_relation (r_members r)
       then and_then (enqueue_relation H r hh) (\<lambda>hh.
              case current_entity_type hh of
                None \<Rightarrow> Inl KeyError
              | Some t \<Rightarrow>
                  if is_full (hh_batch_manager hh) t (processing_counter hh)
                  then flush_relations G t hh
                  else Inr hh)
       else Inr hh)"

fun HistoryHandler_visit ::
  "(int \<Rightarrow> nat) \<Rightarrow> (osm_file \<Rightarrow> entity_type \<Rightarrow> nat list \<Rightarrow> error + (nat \<times> string) list)
     \<Rightarrow> osm_object \<Rightarrow> history_handler \<Rightarrow> error + history_handler" where
  "HistoryHandler_visit H G (Node n) hh = HistoryHandler_node n hh"
| "HistoryHandler_visit H G (Way w) hh = HistoryHandler_way H G w hh"
| "HistoryHandler_visit H G (Relation r) hh = HistoryHandler_relation H G r hh"

fun HistoryHandler_apply_file ::
  "(int \<Rightarrow> nat) \<Rightarrow> (osm_file \<Rightarrow> entity_type \<Rightarrow> nat list \<Rightarrow> error + (nat \<times> string) list)
     \<Rightarrow> osm_object list \<Rightarrow> history_handler \<Rightarrow> error + history_handler" where
  "HistoryHandler_apply_file H G [] hh = Inr hh"
| "HistoryHandler_apply_file H G (obj # objs) hh =
     and_then (HistoryHandler_visit H G obj hh) (HistoryHandler_apply_file H G objs)"

section \<open>The dependency resolver as the specification words it\<close>

text \<open>
  Section 4.6 of the specification, for a relation version at timestamp \<open>T_r\<close>, with
  \<open>store i\<close> the store that holds the versions of id \<open>i\<close>. A Node member that is not
  yet present is fetched with \<open>GetAsOf(Node, id, T_r)\<close>. A Way member that is not yet
  present is fetched with \<open>GetAsOf(Way, id, T_r)\<close> and, when found, each node of its node
  list is fetched at \<open>T_r\<close>: one level of expansion. A Relation member adds nothing. A
  node is kept when its lookup has a result with a location, as for the nodes of a way.
  This is the definition the gatherer of the code is compared with.
\<close>

definition spec_fetch_node ::
  "(int \<Rightarrow> osm_index) \<Rightarrow> int \<Rightarrow> (int \<times> node_dict) list \<Rightarrow> int \<Rightarrow> (int \<times> node_dict) list" where
  "spec_fetch_node store T_r nodes i =
     (case get_node_from_index_by_timestamp (store i) i T_r of
        None \<Rightarrow> nodes
      | Some d \<Rightarrow> if is_node_dict_with_location d then dict_set i d nodes else nodes)"

fun spec_member_dependencies ::
  "(int \<Rightarrow> osm_index) \<Rightarrow> int \<Rightarrow> (int \<times> node_dict) list \<times> (int \<times> way_dict) list
     \<Rightarrow> member_type \<times> int \<times> string \<Rightarrow> (int \<times> node_dict) list \<times> (int \<times> way_dict) list" where
  "spec_member_dependencies store T_r (nodes, ways) (N, i, role) =
     (if dict_in i nodes then (nodes, ways) else (spec_fetch_node store T_r nodes i, ways))"
| "spec_member_dependencies store T_r (nodes, ways) (W, i, role) =
     (if dict_in i ways then (nodes, ways)
      else case get_way_from_index_by_timestamp (store i) i T_r of
             None \<Rightarrow> (nodes, ways)
           | Some way \<Rightarrow>
               (foldl (spec_fetch_node store T_r) nodes (get_way_nodes way),
                dict_set i way ways))"
| "spec_member_dependencies store T_r (nodes, ways) (R, i, role) = (nodes, ways)"

definition spec_relation_dependencies ::
  "(int \<Rightarrow> osm_index) \<Rightarrow> osm_relation \<Rightarrow> (int \<times> node_dict) list \<times> (int \<times> way_dict) list" where
  "spec_relation_dependencies store r =
     foldl (spec_member_dependencies store (r_timestamp r)) ([], []) (r_members r)"

section \<open>The main block\<close>

text \<open>
  The two passes as the main block runs them, without the downloads and uploads: the
  result is the content of the three output files when they are closed. Nothing is
  written between the end of \<^verbatim>\<open>apply_file\<close> and the closing of the files.
\<close>

definition resolution_pass ::
  "(int \<Rightarrow> nat) \<Rightarrow> (osm_file \<Rightarrow> entity_type \<Rightarrow> nat list \<Rightarrow> error + (nat \<times> string) list)
     \<Rightarrow> osm_object list \<Rightarrow> (nat \<times> osm_index) list \<Rightarrow> nat \<Rightarrow> (entity_type \<Rightarrow> nat)
     \<Rightarrow> error + history_handler" where
  \<comment> \<open>lines 553 to 556\<close>
  "resolution_pass H G file osm_indexer_map num_db_shards indexing_processing_counter =
     HistoryHandler_apply_file H G file
       (HistoryHandler_init osm_indexer_map num_db_shards (\<lambda>_. []) create_processing_counter
          indexing_processing_counter 100000 5000)"

definition main ::
  "(int \<Rightarrow> nat) \<Rightarrow> (osm_file \<Rightarrow> entity_type \<Rightarrow> nat list \<Rightarrow> error + (nat \<times> string) list)
     \<Rightarrow> osm_object list \<Rightarrow> int \<Rightarrow> int \<Rightarrow> bool \<Rightarrow> bool
     \<Rightarrow> error + (entity_type \<Rightarrow> json_line list)" where
  "main H G file num_threads arg_num_db_shards merge_db_shards use_id_hash_partitioned_shards =
     and_then (startup_num_db_shards num_threads arg_num_db_shards) (\<lambda>num_db_shards.
     and_then (run_create_osm_index_in_parallel H file num_threads (nat num_db_shards)
                 use_id_hash_partitioned_shards) (\<lambda>(dbs, indexing_processing_counter).
     and_then (resolution_pass H G file (merge_if_db_needed dbs merge_db_shards)
                 (nat num_db_shards) indexing_processing_counter) (\<lambda>history_handler.
       Inr (hh_entities_out_files_dict history_handler))))"

section \<open>Unfolding the model on concrete inputs\<close>

lemmas dict_defs = and_then_def dict_get_def dict_in_def dict_values_def dict_update_def

lemmas transformer_defs = osm_entity_node_dict_def osm_entity_way_dict_def
  osm_entity_relation_dict_def is_node_dict_with_location_def get_way_nodes_def

lemmas index_defs = create_index_def add_node_to_index_def add_way_to_index_def
  add_relation_to_index_def save_def close_index_def get_as_of_def
  get_node_from_index_by_timestamp_def get_way_from_index_by_timestamp_def merge_dbs_def
  get_uniformly_shard_index_from_id_def

lemmas handler_defs = create_processing_counter_def log_processing_def OsmHandler_visit_def

lemmas indexing_defs = commit_if_needed_def process_node_def process_way_def
  process_relation_def index_batch_index_def process_osm_object_def IndexCreator_visit_def
  IndexCreator_init_def owned_shards_def run_index_creator_def
  create_osm_index_def run_create_osm_index_in_parallel_def merge_if_db_needed_def

lemmas batch_defs = BatchManager_init_def add_deps_def add_osm_dicts_to_batches_def is_full_def
  get_batches_values_sorted_lists_def get_ways_simplified_ids_def
  get_main_relations_simplified_ids_def restore_ways_ids_and_add_geometry_def
  restore_relations_ids_and_add_geometry_def reset_def

lemmas history_defs = HistoryHandler_init_def get_osm_indexer_by_id_def
  sort_and_write_to_osm_file_def write_out_to_jsonl_def HistoryHandler_node_def
  append_node_dict_by_id_and_timestamp_list_def append_node_dict_by_id_and_timestamp_map_def
  get_way_and_its_dependencies_as_dict_def flush_ways_def HistoryHandler_way_def
  append_relation_dependency_objects_dicts_def get_relation_and_its_dependencies_as_dict_def
  enqueue_relation_def flush_relations_def HistoryHandler_relation_def resolution_pass_def
  main_def

section \<open>The division of two integers\<close>

lemma round_half_even_exact: "0 < den \<Longrightarrow> round_half_even (k * den) den = k"
  by (simp add: round_half_even_def)

lemma float_exponent_le:
  assumes "0 < b" and "0 < k" and "k < 2 ^ n"
  shows "float_exponent (k * b) b < int n"
proof -
  let ?a = "k * b"
  let ?d = "bitlen (int ?a) - bitlen (int b)"
  have apos: "0 < ?a" using assms by simp
  have ba: "2 ^ nat (bitlen (int ?a) - 1) \<le> int ?a"
    using bitlen_bounds [of "int ?a"] apos by simp
  have bb: "int b < 2 ^ nat (bitlen (int b))"
    using bitlen_bounds [of "int b"] assms(1) by simp
  have bbpos: "0 < bitlen (int b)"
    using assms(1) bitlen_nonneg [of "int b"] bitlen_eq_zero_iff [of "int b"] by linarith
  have bapos: "0 < bitlen (int ?a)"
    using apos bitlen_nonneg [of "int ?a"] bitlen_eq_zero_iff [of "int ?a"] by linarith
  have dn: "?d \<le> int n"
  proof (rule ccontr)
    assume "\<not> ?d \<le> int n"
    then have g: "int n + 1 \<le> ?d" by simp
    then have "nat (bitlen (int b)) + n \<le> nat (bitlen (int ?a) - 1)"
      using bbpos by linarith
    then have "(2::int) ^ (nat (bitlen (int b)) + n) \<le> 2 ^ nat (bitlen (int ?a) - 1)"
      by (intro power_increasing) simp_all
    with ba have "(2::int) ^ nat (bitlen (int b)) * 2 ^ n \<le> int k * int b"
      by (simp add: power_add)
    moreover have "int k * int b < 2 ^ n * 2 ^ nat (bitlen (int b))"
      using assms bb by (intro mult_strict_mono) (simp_all add: of_nat_less_iff [symmetric] del: of_nat_less_iff)
    ultimately show False by (simp add: mult.commute)
  qed
  show ?thesis
  proof (cases "?d = int n")
    case True
    have "\<not> b * 2 ^ n \<le> k * b"
      using assms by simp
    with True show ?thesis
      by (simp add: float_exponent_def Let_def)
  next
    case False
    with dn have "?d < int n" by simp
    then show ?thesis
      by (auto simp: float_exponent_def Let_def)
  qed
qed

lemma true_divide_exact:
  assumes "0 < b" and "b dvd a" and "a div b < 2 ^ 53"
  shows "true_divide a b = Inr (real (a div b))"
proof (cases "a = 0")
  case True
  then show ?thesis using assms by (simp add: true_divide_def)
next
  case False
  define k where "k = a div b"
  have a: "a = k * b" using assms(2) by (simp add: k_def)
  have kpos: "0 < k" using False a by (cases k) simp_all
  have "float_exponent a b < int 53"
    unfolding a using assms(1) kpos assms(3) [folded k_def] by (rule float_exponent_le)
  then have p: "max (float_exponent a b - 52) (- 1074) \<le> 0" by simp
  show ?thesis
  proof (cases "max (float_exponent a b - 52) (- 1074) < 0")
    case True
    have "round_half_even (a * 2 ^ nat (- max (float_exponent a b - 52) (- 1074))) b
        = k * 2 ^ nat (- max (float_exponent a b - 52) (- 1074))"
      using round_half_even_exact [OF assms(1), of "k * 2 ^ nat (- max (float_exponent a b - 52) (- 1074))"]
      by (simp add: a mult.assoc mult.left_commute mult.commute)
    with True False assms(1) show ?thesis
      by (simp add: true_divide_def Let_def k_def [symmetric])
  next
    case False
    with p have z: "max (float_exponent a b - 52) (- 1074) = 0" by simp
    have "(k::nat) < 2 ^ 1024"
      using assms(3) [folded k_def] by (rule less_le_trans) simp
    then show ?thesis
      using \<open>a \<noteq> 0\<close> assms(1) z round_half_even_exact [OF assms(1), of k]
      by (simp add: true_divide_def Let_def a)
  qed
qed

lemma thread_batch_size_exact:
  assumes "0 < T" and "T dvd S" and "S div T < 2 ^ 53"
  shows "thread_batch_size S T = Inr (S div T)"
  using true_divide_exact [OF assms] by (simp add: thread_batch_size_def and_then_def)

section \<open>Startup: the shard count and the worker count\<close>

text \<open>
  C8, as amended. For a worker count other than zero, the shard count is first raised to
  the worker count when it is lower; then the program fails with the shard-configuration
  exception when the adjusted count is not divisible by the worker count, and goes on
  with the adjusted count otherwise: to the indexing pass over that many shards, and
  then to the resolution pass. For a worker count of zero the divisibility test itself
  raises a division by zero. In both failures the whole run ends with the error.
\<close>

theorem startup_num_db_shards_cases:
  "startup_num_db_shards num_threads arg_num_db_shards =
     (if num_threads = 0 then Inl ZeroDivisionError
      else if num_threads dvd max arg_num_db_shards num_threads
      then Inr (max arg_num_db_shards num_threads)
      else Inl (Exception ''--num_db_shards must be divisible by --num_threads''))
   \<and> main H G objs num_threads arg_num_db_shards merge_db_shards mode =
     (if num_threads = 0 then Inl ZeroDivisionError
      else if num_threads dvd max arg_num_db_shards num_threads
      then and_then (run_create_osm_index_in_parallel H objs num_threads
                       (nat (max arg_num_db_shards num_threads)) mode)
             (\<lambda>(dbs, indexing_processing_counter).
                and_then (resolution_pass H G objs (merge_if_db_needed dbs merge_db_shards)
                            (nat (max arg_num_db_shards num_threads)) indexing_processing_counter)
                  (\<lambda>history_handler. Inr (hh_entities_out_files_dict history_handler)))
      else Inl (Exception ''--num_db_shards must be divisible by --num_threads''))"
  by (auto simp: main_def startup_num_db_shards_def Let_def max_def dvd_eq_mod_eq_0 and_then_def)

text \<open>
  C8 as the specification states it fails for zero workers and three shards: three is
  not divisible by zero, yet the error is not the shard-configuration exception.
\<close>

theorem startup_zero_workers_counterexample:
  "\<not> (0::int) dvd max 3 0 \<and>
   startup_num_db_shards 0 3 \<noteq> Inl (Exception ''--num_db_shards must be divisible by --num_threads'')
   \<and> startup_num_db_shards 0 3 = Inl ZeroDivisionError"
  by (simp add: startup_num_db_shards_def)

section \<open>The shard of an entity in the two passes\<close>

lemma index_two_versions_counter_mode:
  "run_create_osm_index_in_parallel H
     [Node \<lparr>n_id = 7, n_version = 1, n_timestamp = 10, n_visible = True, n_location = Some (0, 0)\<rparr>,
      Node \<lparr>n_id = 7, n_version = 2, n_timestamp = 15, n_visible = True, n_location = Some (5, 5)\<rparr>]
     1 2 False =
   Inr ([(0, \<lparr>idx_nodes = [\<lparr>nd_id = 7, nd_version = 2, nd_timestamp = 15, nd_visible = True,
                              nd_location = Some (5, 5), nd_geometry = None\<rparr>],
              idx_ways = [], idx_relations = [], idx_uncommitted = 0, idx_commits = 0\<rparr>),
         (1, \<lparr>idx_nodes = [\<lparr>nd_id = 7, nd_version = 1, nd_timestamp = 10, nd_visible = True,
                              nd_location = Some (0, 0), nd_geometry = None\<rparr>],
              idx_ways = [], idx_relations = [], idx_uncommitted = 0, idx_commits = 0\<rparr>)],
        (\<lambda>_. 0)(Nodes := 2))"
  by (simp add: dict_defs transformer_defs index_defs handler_defs indexing_defs
        thread_batch_size_exact)
     (simp add: numeral_2_eq_2)

text \<open>
  C1 fails on the code. One worker, two shards, counter mode, shards not merged, and a
  stream with two versions of node 7, at times 10 and 15. The indexing pass stores the
  version of time 10 in shard 1 and the version of time 15 in shard 0 (the counter is 1,
  then 2). The resolution pass looks node 7 up in shard \<open>H 7 mod 2\<close>, whatever the mode:
  for a way at time 12 and a way at time 20 that reference node 7, the merged index gives
  the versions of times 10 and 15, while the unmerged shards give either nothing and 15,
  or 10 and 10.
\<close>

theorem counter_mode_lookup_reads_hash_shard:
  "(case run_create_osm_index_in_parallel H
       [Node \<lparr>n_id = 7, n_version = 1, n_timestamp = 10, n_visible = True, n_location = Some (0, 0)\<rparr>,
        Node \<lparr>n_id = 7, n_version = 2, n_timestamp = 15, n_visible = True, n_location = Some (5, 5)\<rparr>]
       1 2 False of
      Inl e \<Rightarrow> None
    | Inr (dbs, c) \<Rightarrow>
        Some (map (\<lambda>(k, s). (k, map nd_timestamp (idx_nodes s))) dbs,
          map (\<lambda>(merge, t).
             map_sum id (\<lambda>(d, nodes). map nd_timestamp nodes)
               (get_way_and_its_dependencies_as_dict H
                  (HistoryHandler_init (merge_if_db_needed dbs merge) 2 (\<lambda>_. [])
                     create_processing_counter c 100000 5000)
                  \<lparr>w_id = 9, w_version = 1, w_timestamp = t, w_visible = True, w_nodes = [7]\<rparr>))
            [(True, 12), (True, 20), (False, 12), (False, 20)]))
   = Some ([(0, [15]), (1, [10])],
        [Inr [10], Inr [15],
         Inr (if H 7 mod 2 = 0 then [] else [10]), Inr (if H 7 mod 2 = 0 then [15] else [10])])"
proof (cases "H 7 mod 2 = 0")
  case True
  then show ?thesis
    unfolding index_two_versions_counter_mode
    by (simp add: dict_defs transformer_defs index_defs history_defs BatchManager_init_def
          indexing_defs)
next
  case False
  then have "H 7 mod 2 = 1" by presburger
  then show ?thesis
    unfolding index_two_versions_counter_mode
    by (simp add: dict_defs transformer_defs index_defs history_defs BatchManager_init_def
          indexing_defs)
qed

section \<open>The residual batch at the end of the stream\<close>

text \<open>
  C3 fails on the code for relations. The stream holds relation 200, which has a Relation
  member and enters the batch, then relation 100, which has none; the indexing pass
  counted two relations. The batch is not full after relation 200 (one main relation,
  counter 1 of 2), and the flush test is not reached for relation 100: when the pass
  ends no relation line has been written and relation 200 is still in the batch.
\<close>

theorem residual_relation_batch_not_flushed:
  "map_sum id
     (\<lambda>hh. (hh_entities_out_files_dict hh Relations,
            map rd_id (bm_main_relations (hh_batch_manager hh))))
     (resolution_pass H G
        [Relation \<lparr>r_id = 200, r_version = 1, r_timestamp = 30, r_visible = True,
                   r_members = [(R, 100, ''sub'')]\<rparr>,
         Relation \<lparr>r_id = 100, r_version = 1, r_timestamp = 25, r_visible = True,
                   r_members = [(W, 9, ''outer'')]\<rparr>]
        [(0, create_index)] 1 (create_processing_counter(Relations := 2)))
   = Inr ([], [200])"
  by (simp add: dict_defs transformer_defs index_defs handler_defs batch_defs history_defs)

section \<open>Commits of the indexing pass\<close>

text \<open>
  With the commit batch of 1,000,000 records that \<^verbatim>\<open>run_index_creator\<close> always uses,
  the second of two workers over two shards in counter mode never commits, whatever the
  stream: it keeps the records with an odd counter, and the commit test asks for a
  multiple of 1,000,000.
\<close>

lemma odd_counter_no_commit:
  assumes "n mod 2 = Suc 0"
  shows "n mod 1000000 \<noteq> (0::nat)"
proof
  assume "n mod 1000000 = 0"
  then have "(1000000::nat) dvd n" by (simp add: dvd_eq_mod_eq_0)
  moreover have "(2::nat) dvd 1000000" by simp
  ultimately have "2 dvd n" by (rule dvd_trans [rotated])
  with assms show False by presburger
qed

lemma second_worker_of_two_visit:
  assumes "IndexCreator_visit H obj ic = Inr ic'"
    and "ic_osm_indexer_map ic = [(1, s)]" and "idx_commits s = 0"
    and "ic_num_shards ic = 2" and "\<not> ic_is_id_hash_partitioned_shards ic"
    and "ic_batch_size_to_commit ic = 1000000"
  shows "\<exists>s'. ic_osm_indexer_map ic' = [(1, s')] \<and> idx_commits s' = 0
     \<and> ic_num_shards ic' = 2 \<and> \<not> ic_is_id_hash_partitioned_shards ic'
     \<and> ic_batch_size_to_commit ic' = 1000000"
proof -
  obtain ic1 where v: "OsmHandler_visit (object_type obj) ic = Inr ic1"
    using assms(1) by (auto simp: IndexCreator_visit_def and_then_def split: sum.splits)
  have f: "ic_osm_indexer_map ic1 = [(1, s)]" "ic_num_shards ic1 = 2"
    "\<not> ic_is_id_hash_partitioned_shards ic1" "ic_batch_size_to_commit ic1 = 1000000"
    "current_entity_type ic1 = Some (object_type obj)"
    using v assms(2-6) by (auto simp: OsmHandler_visit_def log_processing_def split: if_splits)
  have p: "process_osm_object H obj (object_type obj) ic1 = Inr ic'"
    using assms(1) v f(5) by (simp add: IndexCreator_visit_def and_then_def)
  show ?thesis
  proof (cases "processing_counter ic1 (object_type obj) mod 2 = Suc 0")
    case True
    note nc = odd_counter_no_commit [OF True]
    from p f True nc assms(3) show ?thesis
      by (cases obj)
         (auto simp: process_osm_object_def index_batch_index_def and_then_def process_node_def
            process_way_def process_relation_def commit_if_needed_def add_node_to_index_def
            add_way_to_index_def add_relation_to_index_def)
  next
    case False
    then have "processing_counter ic1 (object_type obj) mod 2 = 0" by presburger
    with p f assms(3) show ?thesis
      by (auto simp: process_osm_object_def index_batch_index_def and_then_def)
  qed
qed

lemma second_worker_of_two_apply_file:
  assumes "IndexCreator_apply_file H objs ic = Inr ic'"
    and "ic_osm_indexer_map ic = [(1, s)]" and "idx_commits s = 0"
    and "ic_num_shards ic = 2" and "\<not> ic_is_id_hash_partitioned_shards ic"
    and "ic_batch_size_to_commit ic = 1000000"
  shows "\<exists>s'. ic_osm_indexer_map ic' = [(1, s')] \<and> idx_commits s' = 0"
  using assms
proof (induction objs arbitrary: ic s)
  case Nil
  then show ?case by simp
next
  case (Cons obj objs)
  then obtain ic1 where v: "IndexCreator_visit H obj ic = Inr ic1"
    and rest: "IndexCreator_apply_file H objs ic1 = Inr ic'"
    by (auto simp: and_then_def split: sum.splits)
  from second_worker_of_two_visit [OF v Cons.prems(2-6)]
  obtain s1 where "ic_osm_indexer_map ic1 = [(1, s1)]" "idx_commits s1 = 0"
    "ic_num_shards ic1 = 2" "\<not> ic_is_id_hash_partitioned_shards ic1"
    "ic_batch_size_to_commit ic1 = 1000000" by blast
  with Cons.IH [OF rest] show ?case by blast
qed

lemma second_worker_of_two_never_commits:
  assumes "run_index_creator H objs [(1, create_index)] create_processing_counter 2 False = Inr ic"
  shows "\<exists>s. ic_osm_indexer_map ic = [(1, s)] \<and> idx_commits s = 0"
proof -
  have a: "IndexCreator_apply_file H objs
      (IndexCreator_init [(1, create_index)] create_processing_counter 2 False 1000000 1000000)
    = Inr ic"
    using assms unfolding run_index_creator_def .
  show ?thesis
    by (rule second_worker_of_two_apply_file [OF a, where s = create_index])
       (simp_all add: IndexCreator_init_def create_index_def)
qed

text \<open>
  C9 fails on the code. Worker 1 of two workers over two shards, counter mode, with a
  commit batch of 2 records, reads six nodes. It owns shard 1, so it keeps the nodes
  counted 1, 3 and 5; the commit test runs only after a node it keeps, where the counter
  is odd: after six records the store holds three uncommitted rows and was never
  committed.
\<close>

theorem worker_commits_only_on_owned_records:
  "map_sum id
     (\<lambda>ic. (processing_counter ic Nodes,
            map (\<lambda>(k, s). (k, length (idx_nodes s), idx_uncommitted s, idx_commits s))
              (ic_osm_indexer_map ic)))
     (IndexCreator_apply_file H
        (map (\<lambda>v. Node \<lparr>n_id = 7, n_version = v, n_timestamp = 10, n_visible = True,
                        n_location = Some (0, 0)\<rparr>) [1, 2, 3, 4, 5, 6])
        (IndexCreator_init [(1, create_index)] create_processing_counter 2 False 2 1000000))
   = Inr (6, [(1, 3, 3, 0)])"
  by (simp add: dict_defs transformer_defs index_defs handler_defs indexing_defs)

section \<open>Nodes in the resolution pass\<close>

text \<open>
  C6, as amended. Every node version is written at once as one line of the nodes file
  and leaves the batch buffer and the other files as they were. Its geometry argument is
  built from the location of the node alone, whatever its visible flag: the text of a
  Point of the node's own coordinates when the location is valid, and the text of the
  absent geometry otherwise.
\<close>

theorem node_version_emitted_directly:
  assumes "logging_range_count hh \<noteq> 0"
  shows "\<exists>hh'. HistoryHandler_node n hh = Inr hh'
     \<and> hh_entities_out_files_dict hh' Nodes =
         hh_entities_out_files_dict hh Nodes @
           [NodeLine (osm_entity_node_dict n
              (Some (Str (case n_location n of
                            Some (lon, lat) \<Rightarrow> Some (Point lon lat)
                          | None \<Rightarrow> None))))]
     \<and> hh_entities_out_files_dict hh' Ways = hh_entities_out_files_dict hh Ways
     \<and> hh_entities_out_files_dict hh' Relations = hh_entities_out_files_dict hh Relations
     \<and> hh_batch_manager hh' = hh_batch_manager hh
     \<and> processing_counter hh' = (processing_counter hh)(Nodes := processing_counter hh Nodes + 1)"
  using assms
  by (simp add: HistoryHandler_node_def OsmHandler_visit_def log_processing_def and_then_def
        write_out_to_jsonl_def Let_def)

theorem node_version_emitted_directly_witness:
  "\<exists>hh'. HistoryHandler_node
        \<lparr>n_id = 1, n_version = 1, n_timestamp = 10, n_visible = True, n_location = Some (0, 0)\<rparr>
        (HistoryHandler_init [(0, create_index)] 1 (\<lambda>_. []) create_processing_counter
           create_processing_counter 100000 5000) = Inr hh'
     \<and> hh_entities_out_files_dict hh' Nodes =
         [NodeLine \<lparr>nd_id = 1, nd_version = 1, nd_timestamp = 10, nd_visible = True,
                    nd_location = Some (0, 0), nd_geometry = Some (Str (Some (Point 0 0)))\<rparr>]
     \<and> hh_entities_out_files_dict hh' Ways = []
     \<and> hh_entities_out_files_dict hh' Relations = []
     \<and> hh_batch_manager hh' = BatchManager_init 5000 create_processing_counter"
  using node_version_emitted_directly
    [of "HistoryHandler_init [(0, create_index)] 1 (\<lambda>_. []) create_processing_counter
           create_processing_counter 100000 5000"
        "\<lparr>n_id = 1, n_version = 1, n_timestamp = 10, n_visible = True, n_location = Some (0, 0)\<rparr>"]
  by (auto simp: HistoryHandler_init_def osm_entity_node_dict_def)

text \<open>
  C6 as the specification states it fails for a node version with \<open>visible = False\<close>
  that carries a valid location: the line written has the Point as its geometry, not null.
\<close>

theorem invisible_node_with_location_counterexample:
  "map_sum id (\<lambda>hh. hh_entities_out_files_dict hh Nodes)
     (HistoryHandler_node
        \<lparr>n_id = 1, n_version = 2, n_timestamp = 15, n_visible = False, n_location = Some (5, 5)\<rparr>
        (HistoryHandler_init [(0, create_index)] 1 (\<lambda>_. []) create_processing_counter
           create_processing_counter 100000 5000))
   = Inr [NodeLine \<lparr>nd_id = 1, nd_version = 2, nd_timestamp = 15, nd_visible = False,
                    nd_location = Some (5, 5), nd_geometry = Some (Str (Some (Point 5 5)))\<rparr>]"
  by (simp add: HistoryHandler_node_def HistoryHandler_init_def OsmHandler_visit_def
        log_processing_def and_then_def write_out_to_jsonl_def osm_entity_node_dict_def
        create_processing_counter_def)

section \<open>The dependencies of a way\<close>

lemma way_nodes_loop_eq:
  assumes "\<And>i. i \<in> set ids \<Longrightarrow> get_osm_indexer_by_id H hh i = Inr (store i)"
  shows "way_nodes_loop H hh ts ids acc =
     Inr (acc @ filter is_node_dict_with_location
            (List.map_filter (\<lambda>i. get_node_from_index_by_timestamp (store i) i ts) ids))"
  using assms
proof (induction ids arbitrary: acc)
  case Nil
  then show ?case by (simp add: List.map_filter_simps)
next
  case (Cons i ids)
  have r: "get_osm_indexer_by_id H hh i = Inr (store i)" using Cons.prems by simp
  have rest: "\<And>acc. way_nodes_loop H hh ts ids acc =
     Inr (acc @ filter is_node_dict_with_location
            (List.map_filter (\<lambda>i. get_node_from_index_by_timestamp (store i) i ts) ids))"
    using Cons.IH Cons.prems by simp
  show ?case
    by (cases "get_node_from_index_by_timestamp (store i) i ts")
       (simp_all add: append_node_dict_by_id_and_timestamp_list_def r rest and_then_def
          List.map_filter_simps)
qed

text \<open>
  C4. When every node id of the way is routed to an open store, the dependencies gathered
  for a way version are the results of \<open>GetAsOf(Node, n, T_w)\<close>, with \<open>T_w\<close> the
  timestamp of the way version, for the node ids \<open>n\<close> of the way in their order, less
  the ids with no result and the results with no location.
\<close>

theorem way_dependencies_as_of_way_timestamp:
  assumes "\<forall>i \<in> set (w_nodes w). get_osm_indexer_by_id H hh i = Inr (store i)"
  shows "get_way_and_its_dependencies_as_dict H hh w =
     Inr (osm_entity_way_dict w,
          filter is_node_dict_with_location
            (List.map_filter (\<lambda>i. get_node_from_index_by_timestamp (store i) i (w_timestamp w))
               (w_nodes w)))"
  using assms
  by (simp add: get_way_and_its_dependencies_as_dict_def way_nodes_loop_eq and_then_def)

theorem way_dependencies_as_of_way_timestamp_witness:
  "get_way_and_its_dependencies_as_dict (\<lambda>i. nat i)
     (HistoryHandler_init
        [(0, \<lparr>idx_nodes =
                 [\<lparr>nd_id = 1, nd_version = 1, nd_timestamp = 10, nd_visible = True,
                   nd_location = Some (0, 0), nd_geometry = None\<rparr>,
                  \<lparr>nd_id = 1, nd_version = 2, nd_timestamp = 30, nd_visible = True,
                   nd_location = Some (5, 5), nd_geometry = None\<rparr>,
                  \<lparr>nd_id = 2, nd_version = 1, nd_timestamp = 10, nd_visible = True,
                   nd_location = Some (1, 0), nd_geometry = None\<rparr>,
                  \<lparr>nd_id = 3, nd_version = 1, nd_timestamp = 5, nd_visible = True,
                   nd_location = Some (9, 9), nd_geometry = None\<rparr>,
                  \<lparr>nd_id = 3, nd_version = 2, nd_timestamp = 15, nd_visible = False,
                   nd_location = None, nd_geometry = None\<rparr>],
               idx_ways = [], idx_relations = [], idx_uncommitted = 0, idx_commits = 0\<rparr>)]
        1 (\<lambda>_. []) create_processing_counter create_processing_counter 100000 5000)
     \<lparr>w_id = 9, w_version = 1, w_timestamp = 20, w_visible = True, w_nodes = [1, 3, 2]\<rparr>
   = Inr (\<lparr>wd_id = 9, wd_version = 1, wd_timestamp = 20, wd_visible = True,
           wd_nodes = [1, 3, 2], wd_geometry = None\<rparr>,
          [\<lparr>nd_id = 1, nd_version = 1, nd_timestamp = 10, nd_visible = True,
            nd_location = Some (0, 0), nd_geometry = None\<rparr>,
           \<lparr>nd_id = 2, nd_version = 1, nd_timestamp = 10, nd_visible = True,
            nd_location = Some (1, 0), nd_geometry = None\<rparr>])"
  using way_dependencies_as_of_way_timestamp
    [of "\<lparr>w_id = 9, w_version = 1, w_timestamp = 20, w_visible = True, w_nodes = [1, 3, 2]\<rparr>"
        "\<lambda>i. nat i"
        "HistoryHandler_init
        [(0, \<lparr>idx_nodes =
                 [\<lparr>nd_id = 1, nd_version = 1, nd_timestamp = 10, nd_visible = True,
                   nd_location = Some (0, 0), nd_geometry = None\<rparr>,
                  \<lparr>nd_id = 1, nd_version = 2, nd_timestamp = 30, nd_visible = True,
                   nd_location = Some (5, 5), nd_geometry = None\<rparr>,
                  \<lparr>nd_id = 2, nd_version = 1, nd_timestamp = 10, nd_visible = True,
                   nd_location = Some (1, 0), nd_geometry = None\<rparr>,
                  \<lparr>nd_id = 3, nd_version = 1, nd_timestamp = 5, nd_visible = True,
                   nd_location = Some (9, 9), nd_geometry = None\<rparr>,
                  \<lparr>nd_id = 3, nd_version = 2, nd_timestamp = 15, nd_visible = False,
                   nd_location = None, nd_geometry = None\<rparr>],
               idx_ways = [], idx_relations = [], idx_uncommitted = 0, idx_commits = 0\<rparr>)]
        1 (\<lambda>_. []) create_processing_counter create_processing_counter 100000 5000"
        "\<lambda>_. \<lparr>idx_nodes =
                 [\<lparr>nd_id = 1, nd_version = 1, nd_timestamp = 10, nd_visible = True,
                   nd_location = Some (0, 0), nd_geometry = None\<rparr>,
                  \<lparr>nd_id = 1, nd_version = 2, nd_timestamp = 30, nd_visible = True,
                   nd_location = Some (5, 5), nd_geometry = None\<rparr>,
                  \<lparr>nd_id = 2, nd_version = 1, nd_timestamp = 10, nd_visible = True,
                   nd_location = Some (1, 0), nd_geometry = None\<rparr>,
                  \<lparr>nd_id = 3, nd_version = 1, nd_timestamp = 5, nd_visible = True,
                   nd_location = Some (9, 9), nd_geometry = None\<rparr>,
                  \<lparr>nd_id = 3, nd_version = 2, nd_timestamp = 15, nd_visible = False,
                   nd_location = None, nd_geometry = None\<rparr>],
               idx_ways = [], idx_relations = [], idx_uncommitted = 0, idx_commits = 0\<rparr>"]
  by (simp add: HistoryHandler_init_def get_osm_indexer_by_id_def dict_get_def
        osm_entity_way_dict_def List.map_filter_simps get_node_from_index_by_timestamp_def
        get_as_of_def is_node_dict_with_location_def)

section \<open>The dependencies of a relation\<close>

lemma relation_member_step_keeps_relations_map:
  assumes "append_relation_dependency_objects_dicts H hh i k ts (a, b, c) = Inr (a', b', c')"
  shows "c' = c"
  using assms
  by (cases k)
     (auto simp: append_relation_dependency_objects_dicts_def and_then_def
        split: if_splits sum.splits option.splits)

lemma relation_members_loop_keeps_relations_map:
  assumes "relation_members_loop H hh ts ms (a, b, c) = Inr (a', b', c')"
  shows "c' = c"
  using assms
proof (induction ms arbitrary: a b c)
  case Nil
  then show ?case by simp
next
  case (Cons m ms)
  then obtain a1 b1 c1 where
    s: "append_relation_dependency_objects_dicts H hh (fst (snd m)) (fst m) ts (a, b, c)
          = Inr (a1, b1, c1)"
    and l: "relation_members_loop H hh ts ms (a1, b1, c1) = Inr (a', b', c')"
    by (auto simp: and_then_def split: sum.splits)
  from relation_member_step_keeps_relations_map [OF s] Cons.IH [OF l] show ?case by simp
qed

lemma gathered_relations_empty:
  assumes "get_relation_and_its_dependencies_as_dict H hh r = Inr (d, ns, ws, rs)"
  shows "rs = []"
  using assms relation_members_loop_keeps_relations_map [of H hh "r_timestamp r" "r_members r" "[]" "[]" "[]"]
  by (auto simp: get_relation_and_its_dependencies_as_dict_def and_then_def Let_def dict_values_def
        split: sum.splits prod.splits)

lemma add_deps_Nil: "add_deps [] xs = xs"
  by (simp add: add_deps_def)

lemma enqueue_relation_deps_relations:
  assumes "enqueue_relation H r hh = Inr hh'"
  shows "bm_deps_relations (hh_batch_manager hh') = bm_deps_relations (hh_batch_manager hh)"
  using assms
  by (auto simp: enqueue_relation_def and_then_def add_osm_dicts_to_batches_def add_deps_Nil
        split: sum.splits prod.splits dest!: gathered_relations_empty)

lemma HistoryHandler_node_batch:
  assumes "HistoryHandler_node n hh = Inr hh'"
  shows "hh_batch_manager hh' = hh_batch_manager hh"
  using assms
  by (auto simp: HistoryHandler_node_def OsmHandler_visit_def log_processing_def and_then_def
        write_out_to_jsonl_def Let_def split: sum.splits option.splits if_splits)

lemma flush_ways_deps_relations:
  assumes "flush_ways G t hh = Inr hh'"
  shows "bm_deps_relations (hh_batch_manager hh') = []"
  using assms
  by (auto simp: flush_ways_def and_then_def Let_def reset_def BatchManager_init_def
        split: sum.splits)

lemma flush_relations_deps_relations:
  assumes "flush_relations G t hh = Inr hh'"
  shows "bm_deps_relations (hh_batch_manager hh') = []"
  using assms
  by (auto simp: flush_relations_def and_then_def Let_def reset_def BatchManager_init_def
        split: sum.splits)

lemma OsmHandler_visit_batch:
  assumes "OsmHandler_visit t (hh :: history_handler) = Inr hh'"
  shows "hh_batch_manager hh' = hh_batch_manager hh"
  using assms
  by (auto simp: OsmHandler_visit_def log_processing_def split: if_splits)

lemma HistoryHandler_way_deps_relations:
  assumes "HistoryHandler_way H G w hh = Inr hh'"
    and "bm_deps_relations (hh_batch_manager hh) = []"
  shows "bm_deps_relations (hh_batch_manager hh') = []"
proof -
  obtain hh1 where v: "OsmHandler_visit Ways hh = Inr hh1"
    using assms(1) by (auto simp: HistoryHandler_way_def and_then_def split: sum.splits)
  have b: "bm_deps_relations (hh_batch_manager hh1) = []"
    using OsmHandler_visit_batch [OF v] assms(2) by simp
  show ?thesis
    using assms(1) b
    by (auto simp: HistoryHandler_way_def v and_then_def Let_def add_osm_dicts_to_batches_def
          add_deps_Nil
          split: sum.splits prod.splits option.splits if_splits
          dest: flush_ways_deps_relations)
qed

lemma HistoryHandler_relation_deps_relations:
  assumes "HistoryHandler_relation H G r hh = Inr hh'"
    and "bm_deps_relations (hh_batch_manager hh) = []"
  shows "bm_deps_relations (hh_batch_manager hh') = []"
proof -
  obtain hh1 where v: "OsmHandler_visit Relations hh = Inr hh1"
    using assms(1) by (auto simp: HistoryHandler_relation_def and_then_def split: sum.splits)
  have b: "bm_deps_relations (hh_batch_manager hh1) = []"
    using OsmHandler_visit_batch [OF v] assms(2) by simp
  show ?thesis
    using assms(1) b
    by (auto simp: HistoryHandler_relation_def v and_then_def
          split: sum.splits option.splits if_splits
          dest: flush_relations_deps_relations enqueue_relation_deps_relations)
qed

lemma HistoryHandler_apply_file_deps_relations:
  assumes "HistoryHandler_apply_file H G objs hh = Inr hh'"
    and "bm_deps_relations (hh_batch_manager hh) = []"
  shows "bm_deps_relations (hh_batch_manager hh') = []"
  using assms
proof (induction objs arbitrary: hh)
  case Nil
  then show ?case by simp
next
  case (Cons obj objs)
  then obtain hh1 where v: "HistoryHandler_visit H G obj hh = Inr hh1"
    and rest: "HistoryHandler_apply_file H G objs hh1 = Inr hh'"
    by (auto simp: and_then_def split: sum.splits)
  have "bm_deps_relations (hh_batch_manager hh1) = []"
    using v Cons.prems(2)
    by (cases obj)
       (auto dest: HistoryHandler_node_batch HistoryHandler_way_deps_relations
          HistoryHandler_relation_deps_relations)
  with Cons.IH rest show ?case by blast
qed

lemma resolution_pass_deps_relations:
  assumes "resolution_pass H G file m S c = Inr hh'"
  shows "bm_deps_relations (hh_batch_manager hh') = []"
  using assms
  by (auto simp: resolution_pass_def
        intro!: HistoryHandler_apply_file_deps_relations [where hh' = hh']
        simp: HistoryHandler_init_def BatchManager_init_def)

lemma node_fetch_spec:
  assumes "get_osm_indexer_by_id H hh i = Inr (store i)"
  shows "append_node_dict_by_id_and_timestamp_map H hh i ts m = Inr (spec_fetch_node store ts m i)"
  using assms
  by (simp add: append_node_dict_by_id_and_timestamp_map_def spec_fetch_node_def and_then_def
        split: option.splits)

lemma way_nodes_into_map_spec:
  assumes "\<And>i. get_osm_indexer_by_id H hh i = Inr (store i)"
  shows "way_nodes_into_map H hh ts ids m = Inr (foldl (spec_fetch_node store ts) m ids)"
proof -
  have n: "\<And>i m. append_node_dict_by_id_and_timestamp_map H hh i ts m
      = Inr (spec_fetch_node store ts m i)"
    by (rule node_fetch_spec) (rule assms)
  show ?thesis
    by (induction ids arbitrary: m) (simp_all add: n and_then_def)
qed

lemma member_step_spec:
  assumes "\<And>i. get_osm_indexer_by_id H hh i = Inr (store i)"
  shows "append_relation_dependency_objects_dicts H hh (fst (snd member)) (fst member) ts (a, b, c)
     = Inr (fst (spec_member_dependencies store ts (a, b) member),
            snd (spec_member_dependencies store ts (a, b) member), c)"
proof -
  obtain k i role where m: "member = (k, i, role)" by (cases member) auto
  have n: "\<And>i m. append_node_dict_by_id_and_timestamp_map H hh i ts m
      = Inr (spec_fetch_node store ts m i)"
    by (rule node_fetch_spec) (rule assms)
  have w: "\<And>ids m. way_nodes_into_map H hh ts ids m
      = Inr (foldl (spec_fetch_node store ts) m ids)"
    by (rule way_nodes_into_map_spec) (rule assms)
  show ?thesis
    unfolding m
    by (cases k)
       (simp_all add: append_relation_dependency_objects_dicts_def assms and_then_def n w
          split: option.splits)
qed

lemma members_loop_spec:
  assumes "\<And>i. get_osm_indexer_by_id H hh i = Inr (store i)"
  shows "relation_members_loop H hh ts ms (a, b, c)
     = Inr (fst (foldl (spec_member_dependencies store ts) (a, b) ms),
            snd (foldl (spec_member_dependencies store ts) (a, b) ms), c)"
proof (induction ms arbitrary: a b)
  case Nil
  then show ?case by simp
next
  case (Cons member ms)
  have st: "append_relation_dependency_objects_dicts H hh (fst (snd member)) (fst member) ts (a, b, c)
     = Inr (fst (spec_member_dependencies store ts (a, b) member),
            snd (spec_member_dependencies store ts (a, b) member), c)"
    by (rule member_step_spec) (rule assms)
  show ?case
    by (simp add: st and_then_def Cons.IH)
qed

lemma gather_relation_spec:
  assumes "\<And>i. get_osm_indexer_by_id H hh i = Inr (store i)"
  shows "get_relation_and_its_dependencies_as_dict H hh r =
     Inr (osm_entity_relation_dict r,
          dict_values (fst (spec_relation_dependencies store r)),
          dict_values (snd (spec_relation_dependencies store r)),
          [])"
proof -
  have l: "\<And>ts ms. relation_members_loop H hh ts ms ([], [], [])
     = Inr (fst (foldl (spec_member_dependencies store ts) ([], []) ms),
            snd (foldl (spec_member_dependencies store ts) ([], []) ms), [])"
    by (rule members_loop_spec) (rule assms)
  show ?thesis
    by (simp add: get_relation_and_its_dependencies_as_dict_def l and_then_def Let_def
          spec_relation_dependencies_def dict_values_def)
qed

text \<open>
  C5. When every id is routed to an open store, the dependencies gathered for a relation
  version are those of the resolver as the specification words it, run over the members
  of the relation in their order at the timestamp of the relation version: a Way member
  that is not yet present is fetched with \<open>GetAsOf(Way, id, T_r)\<close> and, when found, each
  node id of its node list is fetched with \<open>GetAsOf(Node, node_id, T_r)\<close>, which is all
  the expansion there is, and no relation is gathered. A Relation member leaves the three
  maps as they are, whatever the stores open (even none, where any fetch would fail): it
  is neither fetched nor expanded. The relations gathered for a relation version are
  empty, and no relation dependency is in the batch at the end of a resolution pass.
\<close>

theorem relation_dependencies_single_level:
  assumes "\<forall>i. get_osm_indexer_by_id H hh i = Inr (store i)"
  shows "get_relation_and_its_dependencies_as_dict H hh r =
         Inr (osm_entity_relation_dict r,
              dict_values (fst (spec_relation_dependencies store r)),
              dict_values (snd (spec_relation_dependencies store r)),
              [])
     \<and> append_relation_dependency_objects_dicts H' hh' i R ts maps = Inr maps
     \<and> (get_relation_and_its_dependencies_as_dict H' hh' r' = Inr (d, ns, ws, rs) \<longrightarrow> rs = [])
     \<and> (resolution_pass H' G objs m S c = Inr hh'' \<longrightarrow>
          bm_deps_relations (hh_batch_manager hh'') = [])"
proof -
  have 1: "get_relation_and_its_dependencies_as_dict H hh r =
         Inr (osm_entity_relation_dict r,
              dict_values (fst (spec_relation_dependencies store r)),
              dict_values (snd (spec_relation_dependencies store r)),
              [])"
    using assms by (intro gather_relation_spec) simp
  have 2: "append_relation_dependency_objects_dicts H' hh' i R ts maps = Inr maps"
    by (simp add: append_relation_dependency_objects_dicts_def split: prod.splits)
  show ?thesis
    using 1 2 gathered_relations_empty resolution_pass_deps_relations by blast
qed

theorem relation_dependencies_single_level_witness:
  "get_relation_and_its_dependencies_as_dict (\<lambda>i. nat i)
     (HistoryHandler_init
        [(0, \<lparr>idx_nodes =
              [\<lparr>nd_id = 1, nd_version = 1, nd_timestamp = 10, nd_visible = True,
                nd_location = Some (0, 0), nd_geometry = None\<rparr>,
               \<lparr>nd_id = 2, nd_version = 1, nd_timestamp = 10, nd_visible = True,
                nd_location = Some (1, 0), nd_geometry = None\<rparr>,
               \<lparr>nd_id = 3, nd_version = 1, nd_timestamp = 28, nd_visible = True,
                nd_location = Some (2, 2), nd_geometry = None\<rparr>],
            idx_ways =
              [\<lparr>wd_id = 9, wd_version = 1, wd_timestamp = 20, wd_visible = True,
                wd_nodes = [1, 2], wd_geometry = None\<rparr>,
               \<lparr>wd_id = 9, wd_version = 2, wd_timestamp = 30, wd_visible = True,
                wd_nodes = [1, 2, 3], wd_geometry = None\<rparr>],
            idx_relations = [], idx_uncommitted = 0, idx_commits = 0\<rparr>)]
        1 (\<lambda>_. []) create_processing_counter create_processing_counter 100000 5000)
     \<lparr>r_id = 100, r_version = 1, r_timestamp = 25, r_visible = True,
       r_members = [(W, 9, ''outer''), (R, 200, ''sub''), (N, 1, ''stop''), (W, 9, ''inner'')]\<rparr>
   = Inr (\<lparr>rd_id = 100, rd_version = 1, rd_timestamp = 25, rd_visible = True,
           rd_members = [(W, 9, ''outer''), (R, 200, ''sub''), (N, 1, ''stop''), (W, 9, ''inner'')],
           rd_geometry = None\<rparr>,
          [\<lparr>nd_id = 1, nd_version = 1, nd_timestamp = 10, nd_visible = True,
            nd_location = Some (0, 0), nd_geometry = None\<rparr>,
           \<lparr>nd_id = 2, nd_version = 1, nd_timestamp = 10, nd_visible = True,
            nd_location = Some (1, 0), nd_geometry = None\<rparr>],
          [\<lparr>wd_id = 9, wd_version = 1, wd_timestamp = 20, wd_visible = True,
            wd_nodes = [1, 2], wd_geometry = None\<rparr>],
          [])
   \<and> append_relation_dependency_objects_dicts (\<lambda>i. nat i)
       (HistoryHandler_init [] 0 (\<lambda>_. []) create_processing_counter create_processing_counter
          100000 5000)
       200 R 25 ([], [], [])
     = Inr ([], [], [])"
proof -
  define s0 where "s0 = \<lparr>idx_nodes =
              [\<lparr>nd_id = 1, nd_version = 1, nd_timestamp = 10, nd_visible = True,
                nd_location = Some (0, 0), nd_geometry = None\<rparr>,
               \<lparr>nd_id = 2, nd_version = 1, nd_timestamp = 10, nd_visible = True,
                nd_location = Some (1, 0), nd_geometry = None\<rparr>,
               \<lparr>nd_id = 3, nd_version = 1, nd_timestamp = 28, nd_visible = True,
                nd_location = Some (2, 2), nd_geometry = None\<rparr>],
            idx_ways =
              [\<lparr>wd_id = 9, wd_version = 1, wd_timestamp = 20, wd_visible = True,
                wd_nodes = [1, 2], wd_geometry = None\<rparr>,
               \<lparr>wd_id = 9, wd_version = 2, wd_timestamp = 30, wd_visible = True,
                wd_nodes = [1, 2, 3], wd_geometry = None\<rparr>],
            idx_relations = [], idx_uncommitted = 0, idx_commits = 0\<rparr>"
  define hh0 where "hh0 = HistoryHandler_init [(0, s0)] 1 (\<lambda>_. []) create_processing_counter
      create_processing_counter 100000 5000"
  have routed: "\<forall>i. get_osm_indexer_by_id (\<lambda>i. nat i) hh0 i = Inr ((\<lambda>_. s0) i)"
    by (simp add: hh0_def HistoryHandler_init_def get_osm_indexer_by_id_def dict_get_def)
  note th = relation_dependencies_single_level [OF routed]
  have 1: "get_relation_and_its_dependencies_as_dict (\<lambda>i. nat i) hh0
     \<lparr>r_id = 100, r_version = 1, r_timestamp = 25, r_visible = True,
       r_members = [(W, 9, ''outer''), (R, 200, ''sub''), (N, 1, ''stop''), (W, 9, ''inner'')]\<rparr>
   = Inr (\<lparr>rd_id = 100, rd_version = 1, rd_timestamp = 25, rd_visible = True,
           rd_members = [(W, 9, ''outer''), (R, 200, ''sub''), (N, 1, ''stop''), (W, 9, ''inner'')],
           rd_geometry = None\<rparr>,
          [\<lparr>nd_id = 1, nd_version = 1, nd_timestamp = 10, nd_visible = True,
            nd_location = Some (0, 0), nd_geometry = None\<rparr>,
           \<lparr>nd_id = 2, nd_version = 1, nd_timestamp = 10, nd_visible = True,
            nd_location = Some (1, 0), nd_geometry = None\<rparr>],
          [\<lparr>wd_id = 9, wd_version = 1, wd_timestamp = 20, wd_visible = True,
            wd_nodes = [1, 2], wd_geometry = None\<rparr>],
          [])"
    unfolding th [THEN conjunct1]
    by (simp add: s0_def spec_relation_dependencies_def spec_fetch_node_def dict_in_def
          dict_values_def osm_entity_relation_dict_def get_way_nodes_def
          get_node_from_index_by_timestamp_def get_way_from_index_by_timestamp_def
          get_as_of_def is_node_dict_with_location_def)
  have 2: "append_relation_dependency_objects_dicts (\<lambda>i. nat i)
       (HistoryHandler_init [] 0 (\<lambda>_. []) create_processing_counter create_processing_counter
          100000 5000)
       200 R 25 ([], [], [])
     = Inr ([], [], [])"
    by (rule th [THEN conjunct2, THEN conjunct1])
  from 1 2 show ?thesis
    unfolding hh0_def s0_def by - (intro conjI, assumption+)
qed

section \<open>Relations in the resolution pass\<close>

lemma has_relation_iff: "has_relation ms \<longleftrightarrow> R \<in> fst ` set ms"
  by (induction ms) auto

lemma visited_handler_routes_alike:
  assumes "OsmHandler_visit t (hh :: history_handler) = Inr hh1"
  shows "get_osm_indexer_by_id H hh1 i = get_osm_indexer_by_id H hh i"
  using assms
  by (auto simp: OsmHandler_visit_def log_processing_def get_osm_indexer_by_id_def
        split: if_splits)

text \<open>
  C2, as amended. A relation version enters the batch buffer if and only if one of its
  members is of kind Relation: then, when every id is routed to an open store, the
  gathering of its dependencies succeeds and the relation is appended to the main
  relations of the batch, and the handler goes on to the flush test. A relation version
  with no Relation member changes neither the batch nor any output file: no line is
  written for it.
\<close>

theorem relation_batched_iff_relation_member:
  assumes "logging_range_count hh \<noteq> 0"
  shows "(has_relation (r_members r) \<longleftrightarrow> R \<in> fst ` set (r_members r))
     \<and> (\<exists>hh1. OsmHandler_visit Relations hh = Inr hh1
           \<and> hh_batch_manager hh1 = hh_batch_manager hh
           \<and> hh_entities_out_files_dict hh1 = hh_entities_out_files_dict hh
           \<and> (if has_relation (r_members r)
               then (\<forall>hh2. enqueue_relation H r hh1 = Inr hh2 \<longrightarrow>
                      bm_main_relations (hh_batch_manager hh2) =
                        bm_main_relations (hh_batch_manager hh) @ [osm_entity_relation_dict r]
                      \<and> hh_entities_out_files_dict hh2 = hh_entities_out_files_dict hh
                      \<and> HistoryHandler_relation H G r hh =
                          (if is_full (hh_batch_manager hh2) Relations (processing_counter hh2)
                           then flush_relations G Relations hh2 else Inr hh2))
                 \<and> ((\<forall>i. get_osm_indexer_by_id H hh i = Inr (store i)) \<longrightarrow>
                      (\<exists>hh2. enqueue_relation H r hh1 = Inr hh2))
               else HistoryHandler_relation H G r hh = Inr hh1))"
proof -
  let ?hh1 = "hh\<lparr>current_entity_type := Some Relations,
      processing_counter := (processing_counter hh)(Relations := processing_counter hh Relations + 1)\<rparr>"
  have v: "OsmHandler_visit Relations hh = Inr ?hh1"
    using assms by (simp add: OsmHandler_visit_def log_processing_def)
  have e: "bm_main_relations (hh_batch_manager hh2) =
             bm_main_relations (hh_batch_manager hh) @ [osm_entity_relation_dict r]
           \<and> hh_entities_out_files_dict hh2 = hh_entities_out_files_dict hh
           \<and> current_entity_type hh2 = Some Relations"
    if "enqueue_relation H r ?hh1 = Inr hh2" for hh2
    using that
    by (auto simp: enqueue_relation_def get_relation_and_its_dependencies_as_dict_def and_then_def
          add_osm_dicts_to_batches_def Let_def split: sum.splits prod.splits)
  have t: "\<exists>hh2. enqueue_relation H r ?hh1 = Inr hh2"
    if routed: "\<forall>i. get_osm_indexer_by_id H hh i = Inr (store i)"
  proof -
    have "\<And>i. get_osm_indexer_by_id H ?hh1 i = Inr (store i)"
      using visited_handler_routes_alike [OF v] routed by simp
    from gather_relation_spec [OF this, of r] show ?thesis
      by (simp add: enqueue_relation_def and_then_def)
  qed
  show ?thesis
    using v e t
    by (auto simp: has_relation_iff HistoryHandler_relation_def and_then_def split: sum.splits)
qed

theorem relation_batched_iff_relation_member_witness:
  "\<not> has_relation [(W, 9, ''outer'')]
   \<and> (\<exists>hh1. HistoryHandler_relation (\<lambda>i. nat i) (\<lambda>f t ids. Inr [])
          \<lparr>r_id = 100, r_version = 1, r_timestamp = 25, r_visible = True,
            r_members = [(W, 9, ''outer'')]\<rparr>
          (HistoryHandler_init [(0, create_index)] 1 (\<lambda>_. []) create_processing_counter
             (create_processing_counter(Relations := 2)) 100000 5000) = Inr hh1
        \<and> hh_batch_manager hh1 = BatchManager_init 5000 (create_processing_counter(Relations := 2))
        \<and> hh_entities_out_files_dict hh1 = (\<lambda>_. []))
   \<and> has_relation [(R, 100, ''sub'')]
   \<and> (\<exists>hh1. OsmHandler_visit Relations
          (HistoryHandler_init [(0, create_index)] 1 (\<lambda>_. []) create_processing_counter
             (create_processing_counter(Relations := 2)) 100000 5000) = Inr hh1
        \<and> (\<exists>hh2. enqueue_relation (\<lambda>i. nat i)
                     \<lparr>r_id = 200, r_version = 1, r_timestamp = 30, r_visible = True,
                       r_members = [(R, 100, ''sub'')]\<rparr> hh1 = Inr hh2
              \<and> bm_main_relations (hh_batch_manager hh2) =
                 [\<lparr>rd_id = 200, rd_version = 1, rd_timestamp = 30, rd_visible = True,
                   rd_members = [(R, 100, ''sub'')], rd_geometry = None\<rparr>]))"
proof -
  define hh0 where "hh0 = HistoryHandler_init [(0, create_index)] 1 (\<lambda>_. []) create_processing_counter
             (create_processing_counter(Relations := 2)) 100000 5000"
  define r100 where "r100 = \<lparr>r_id = 100, r_version = 1, r_timestamp = 25, r_visible = True,
            r_members = [(W, 9, ''outer'')]\<rparr>"
  define r200 where "r200 = \<lparr>r_id = 200, r_version = 1, r_timestamp = 30, r_visible = True,
                       r_members = [(R, 100, ''sub'')]\<rparr>"
  have l: "logging_range_count hh0 \<noteq> 0"
    by (simp add: hh0_def HistoryHandler_init_def)
  have routed: "\<forall>i. get_osm_indexer_by_id (\<lambda>i. nat i) hh0 i = Inr ((\<lambda>_. create_index) i)"
    by (simp add: hh0_def HistoryHandler_init_def get_osm_indexer_by_id_def dict_get_def)
  have n1: "\<not> has_relation (r_members r100)" and n2: "has_relation (r_members r200)"
    by (simp_all add: r100_def r200_def)
  from relation_batched_iff_relation_member
         [OF l, of r100 "\<lambda>i. nat i" "\<lambda>f t ids. Inr []", THEN conjunct2] n1
  obtain hh1 where a: "HistoryHandler_relation (\<lambda>i. nat i) (\<lambda>f t ids. Inr []) r100 hh0 = Inr hh1"
    and b: "hh_batch_manager hh1 = hh_batch_manager hh0"
    and c: "hh_entities_out_files_dict hh1 = hh_entities_out_files_dict hh0"
    by auto
  from relation_batched_iff_relation_member
         [OF l, of r200 "\<lambda>i. nat i" "\<lambda>f t ids. Inr []" "\<lambda>_. create_index", THEN conjunct2] n2
  obtain hh1' where v: "OsmHandler_visit Relations hh0 = Inr hh1'"
    and p: "\<And>hh2. enqueue_relation (\<lambda>i. nat i) r200 hh1' = Inr hh2 \<Longrightarrow>
          bm_main_relations (hh_batch_manager hh2) =
            bm_main_relations (hh_batch_manager hh0) @ [osm_entity_relation_dict r200]"
    and q: "(\<forall>i. get_osm_indexer_by_id (\<lambda>i. nat i) hh0 i = Inr create_index) \<Longrightarrow>
          \<exists>hh2. enqueue_relation (\<lambda>i. nat i) r200 hh1' = Inr hh2"
    by auto
  from q routed obtain hh2 where en: "enqueue_relation (\<lambda>i. nat i) r200 hh1' = Inr hh2"
    by auto
  have w1: "\<not> has_relation [(W, 9, ''outer'')]" and w3: "has_relation [(R, 100, ''sub'')]"
    by simp_all
  have w2: "hh_batch_manager hh1 = BatchManager_init 5000 (create_processing_counter(Relations := 2))"
    and w2': "hh_entities_out_files_dict hh1 = (\<lambda>_. [])"
    using b c by (simp_all add: hh0_def HistoryHandler_init_def)
  have w4: "bm_main_relations (hh_batch_manager hh2) =
                 [\<lparr>rd_id = 200, rd_version = 1, rd_timestamp = 30, rd_visible = True,
                   rd_members = [(R, 100, ''sub'')], rd_geometry = None\<rparr>]"
    using p [OF en]
    by (simp add: hh0_def r200_def HistoryHandler_init_def BatchManager_init_def
          osm_entity_relation_dict_def)
  from w1 a w2 w2' w3 v en w4 show ?thesis
    unfolding hh0_def r100_def r200_def
    by - (intro conjI exI [of _ hh1] exI [of _ hh1'] exI [of _ hh2], assumption+)
qed

text \<open>
  C2 as the specification states it fails on scenario 4 of the specification: two nodes,
  way 9 over them and relation 100 with the way as its only member, with one worker and
  one shard. The relations file is empty when the run ends: relation 100 was not
  written.
\<close>

theorem relation_without_relation_member_counterexample:
  "map_sum id (\<lambda>f. (length (f Nodes), length (f Ways), f Relations))
     (main (\<lambda>i. nat i) (\<lambda>f t ids. Inr (map (\<lambda>i. (i, ''LineString'')) ids))
        [Node \<lparr>n_id = 1, n_version = 1, n_timestamp = 10, n_visible = True, n_location = Some (0, 0)\<rparr>,
         Node \<lparr>n_id = 2, n_version = 1, n_timestamp = 10, n_visible = True, n_location = Some (1, 0)\<rparr>,
         Way \<lparr>w_id = 9, w_version = 1, w_timestamp = 20, w_visible = True, w_nodes = [1, 2]\<rparr>,
         Relation \<lparr>r_id = 100, r_version = 1, r_timestamp = 25, r_visible = True,
                   r_members = [(W, 9, ''outer'')]\<rparr>]
        1 1 True False)
   = Inr (2, 1, [])"
  by (simp add: dict_defs transformer_defs index_defs handler_defs indexing_defs batch_defs
        history_defs startup_num_db_shards_def thread_batch_size_exact)

section \<open>The shards a worker owns\<close>


lemma dict_set_keys:
  assumes "map_of m k = Some v0"
  shows "map fst (dict_set k v m) = map fst m"
  using assms by (induction m) (auto split: if_splits)

lemma commit_if_needed_keys:
  assumes "commit_if_needed ic = Inr ic'"
  shows "map fst (ic_osm_indexer_map ic') = map fst (ic_osm_indexer_map ic)"
  using assms
  by (auto simp: commit_if_needed_def comp_def case_prod_unfold
        split: option.splits if_splits)

lemma process_osm_object_keys:
  assumes "process_osm_object H obj t ic = Inr ic'"
  shows "map fst (ic_osm_indexer_map ic') = map fst (ic_osm_indexer_map ic)"
  using assms
  by (auto simp: process_osm_object_def and_then_def process_node_def process_way_def
        process_relation_def dict_set_keys
        split: sum.splits option.splits entity_type.splits osm_object.splits
        dest!: commit_if_needed_keys)

lemma OsmHandler_visit_keys:
  assumes "OsmHandler_visit t (ic :: index_creator) = Inr ic'"
  shows "ic_osm_indexer_map ic' = ic_osm_indexer_map ic"
  using assms
  by (auto simp: OsmHandler_visit_def log_processing_def split: if_splits)

lemma IndexCreator_visit_keys:
  assumes "IndexCreator_visit H obj ic = Inr ic'"
  shows "map fst (ic_osm_indexer_map ic') = map fst (ic_osm_indexer_map ic)"
  using assms
  by (auto simp: IndexCreator_visit_def and_then_def
        split: sum.splits option.splits
        dest!: OsmHandler_visit_keys process_osm_object_keys)

lemma IndexCreator_apply_file_keys:
  assumes "IndexCreator_apply_file H objs ic = Inr ic'"
  shows "map fst (ic_osm_indexer_map ic') = map fst (ic_osm_indexer_map ic)"
  using assms
proof (induction objs arbitrary: ic)
  case Nil
  then show ?case by simp
next
  case (Cons obj objs)
  then obtain ic1 where v: "IndexCreator_visit H obj ic = Inr ic1"
    and rest: "IndexCreator_apply_file H objs ic1 = Inr ic'"
    by (auto simp: and_then_def split: sum.splits)
  from Cons.IH [OF rest] IndexCreator_visit_keys [OF v] show ?case by simp
qed

lemma create_osm_index_keys:
  assumes "create_osm_index H objs S T w mode = Inr (dbs, c)"
    and "owned_shards S T w = Inr shards"
  shows "map fst dbs = shards"
  using assms
  by (auto simp: create_osm_index_def run_index_creator_def and_then_def IndexCreator_init_def
        comp_def case_prod_unfold
        split: sum.splits dest!: IndexCreator_apply_file_keys)












section \<open>Routing a lookup to a store\<close>

lemma merged_map_single_store:
  "merge_if_db_needed dbs True = [(0, merge_dbs (dict_values dbs))]"
  by (simp add: merge_if_db_needed_def)

lemma single_worker_single_shard_keys:
  assumes "run_create_osm_index_in_parallel H objs 1 1 mode = Inr (dbs, c)"
  shows "map fst dbs = [0]"
proof -
  from assms obtain db c0 where
    w: "create_osm_index H objs 1 1 0 mode = Inr (db, c0)"
    and d: "dbs = dict_update [] db"
    by (auto simp: run_create_osm_index_in_parallel_def and_then_def split: sum.splits)
  have "owned_shards 1 1 0 = Inr [0]"
    by (simp add: owned_shards_def thread_batch_size_exact and_then_def)
  with w have "map fst db = [0]" by (rule create_osm_index_keys)
  then obtain s where "db = [(0, s)]" by (cases db) auto
  with d show ?thesis by (simp add: dict_update_def)
qed

lemma lookup_depends_on_hash_only_with_several_stores:
  assumes "get_osm_indexer_by_id H hh i \<noteq> get_osm_indexer_by_id H' hh i"
  shows "1 < length (hh_osm_indexer_map hh)"
proof (rule ccontr)
  assume "\<not> 1 < length (hh_osm_indexer_map hh)"
  then consider "length (hh_osm_indexer_map hh) = 1" | "hh_osm_indexer_map hh = []"
    by (cases "hh_osm_indexer_map hh") auto
  then show False
  proof cases
    case 1
    with assms show False by (simp add: get_osm_indexer_by_id_def)
  next
    case 2
    with assms show False
      by (simp add: get_osm_indexer_by_id_def get_uniformly_shard_index_from_id_def
            and_then_def dict_get_def split: if_splits)
  qed
qed

text \<open>
  C10. When the stores open are one store under shard index 0, every lookup, for every
  id, is routed to that store, and the shard function is not computed: the result is the
  same for any hash and any number of shards, even zero, where computing the shard would
  fail. The map of merged shards is of this form, and so is the map of unmerged shards
  in the one run that has a single shard (one worker, one shard). The hash can make a
  difference to the store a lookup returns only when more than one store is open.
\<close>

theorem single_store_lookup_skips_shard_function:
  assumes "hh_osm_indexer_map hh = [(0, store)]"
  shows "get_osm_indexer_by_id H hh i = Inr store
     \<and> get_osm_indexer_by_id H hh i = get_osm_indexer_by_id H' (hh\<lparr>hh_num_shards := S\<rparr>) i
     \<and> merge_if_db_needed dbs True = [(0, merge_dbs (dict_values dbs))]
     \<and> (run_create_osm_index_in_parallel H0 objs 1 1 mode = Inr (dbs', c) \<longrightarrow>
          map fst (merge_if_db_needed dbs' False) = [0])
     \<and> (get_osm_indexer_by_id H hh' i' \<noteq> get_osm_indexer_by_id H' hh' i' \<longrightarrow>
          1 < length (hh_osm_indexer_map hh'))"
proof -
  have 1: "get_osm_indexer_by_id H hh i = Inr store"
    using assms by (simp add: get_osm_indexer_by_id_def dict_get_def)
  have 2: "get_osm_indexer_by_id H' (hh\<lparr>hh_num_shards := S\<rparr>) i = Inr store"
    using assms by (simp add: get_osm_indexer_by_id_def dict_get_def)
  have 4: "run_create_osm_index_in_parallel H0 objs 1 1 mode = Inr (dbs', c) \<longrightarrow>
          map fst (merge_if_db_needed dbs' False) = [0]"
    using single_worker_single_shard_keys by (auto simp: merge_if_db_needed_def)
  from 1 2 4 merged_map_single_store lookup_depends_on_hash_only_with_several_stores
  show ?thesis by metis
qed

theorem single_store_lookup_skips_shard_function_witness:
  "get_osm_indexer_by_id (\<lambda>i. nat i)
     (HistoryHandler_init (merge_if_db_needed [(0, create_index), (1, create_index)] True) 2
        (\<lambda>_. []) create_processing_counter create_processing_counter 100000 5000) 7
   = Inr (merge_dbs [create_index, create_index])
   \<and> get_osm_indexer_by_id (\<lambda>i. nat i)
     (HistoryHandler_init (merge_if_db_needed [(0, create_index), (1, create_index)] True) 2
        (\<lambda>_. []) create_processing_counter create_processing_counter 100000 5000) 7
     = get_osm_indexer_by_id (\<lambda>i. 0)
         ((HistoryHandler_init (merge_if_db_needed [(0, create_index), (1, create_index)] True) 2
            (\<lambda>_. []) create_processing_counter create_processing_counter 100000 5000)
          \<lparr>hh_num_shards := 0\<rparr>) 7"
proof -
  have m: "hh_osm_indexer_map
      (HistoryHandler_init (merge_if_db_needed [(0, create_index), (1, create_index)] True) 2
        (\<lambda>_. []) create_processing_counter create_processing_counter 100000 5000)
    = [(0, merge_dbs [create_index, create_index])]"
    by (simp add: HistoryHandler_init_def merge_if_db_needed_def dict_values_def)
  note th = single_store_lookup_skips_shard_function [OF m]
  from th [THEN conjunct1, of "\<lambda>i. nat i" 7]
       th [THEN conjunct2, THEN conjunct1, of "\<lambda>i. nat i" 7 "\<lambda>i. 0" 0]
  show ?thesis by simp
qed

end
